theory Spec2Isabelle
  imports Complex_Main
begin

section \<open>Actors, responses and the platform\<close>

text \<open>
  Identifiers are the hexadecimal strings of the document store, in the form the store
  prints them (24 lower-case digits); the handlers compare them as strings
  (\<^verbatim>\<open>a.toString() === b.toString()\<close>), and so do the lookups here. What the store
  does with a string that is not an identifier in that form (it casts an upper-case
  one, and throws on one that does not cast) is not modelled.
\<close>

type_synonym objectId = string

datatype role = Patient | Doctor | Assistant

text \<open>The authenticated caller \<^verbatim>\<open>req.user\<close>.\<close>

record actor =
  actor_id :: objectId
  role :: role

text \<open>
  The failure responses of the handlers: \<^verbatim>\<open>res.status(400).json({ errors })\<close> after
  request validation, \<^verbatim>\<open>res.status(c).json({ message })\<close> for 400, 403 and 404, and the
  \<^verbatim>\<open>catch\<close> branch answering 500 when a statement of the handler throws.
\<close>

datatype error =
    ValidationErrors
  | BadRequest string
  | Forbidden string
  | NotFound string
  | ServerError

fun statusCode :: "error \<Rightarrow> nat" where
  "statusCode ValidationErrors = 400"
| "statusCode (BadRequest m) = 400"
| "statusCode (Forbidden m) = 403"
| "statusCode (NotFound m) = 404"
| "statusCode ServerError = 500"

text \<open>
  What the handlers take from libraries, from the runtime and from the store, as
  parameters: the two string validators of the request validation, the string sanitizer
  \<^verbatim>\<open>trim\<close>, the \<^verbatim>\<open>Date\<close> constructor on a string (a time value in milliseconds
  since the epoch, or no value for an invalid date), the offset of the server's local
  time zone at a time value, and the store's \<^verbatim>\<open>$sum\<close> accumulator. Numbers are
  double-precision floating-point numbers, each given by its real value; \<^verbatim>\<open>$sum\<close>
  adds them in floating point, so its result on a list is whatever that arithmetic
  gives, not in general the sum of the reals.
\<close>

record platform =
  isMongoId :: "string \<Rightarrow> bool"
  isISO8601 :: "string \<Rightarrow> bool"
  trim :: "string \<Rightarrow> string"
  newDate :: "string \<Rightarrow> int option"
  localTZA :: "int \<Rightarrow> int"
  sumNumbers :: "real list \<Rightarrow> real"

text \<open>JavaScript truthiness of an optional string and of an optional number.\<close>

definition truthyStr :: "string option \<Rightarrow> bool" where
  "truthyStr v = (case v of None \<Rightarrow> False | Some s \<Rightarrow> s \<noteq> [])"

definition truthyNum :: "real option \<Rightarrow> bool" where
  "truthyNum v = (case v of None \<Rightarrow> False | Some x \<Rightarrow> x \<noteq> 0)"

section \<open>Wall-clock components of a date\<close>

text \<open>
  \<^verbatim>\<open>Date.prototype.getDay\<close> and \<^verbatim>\<open>getHours\<close> read the local time
  \<open>t + localTZA t\<close>: the week day is \<open>(Day + 4) mod 7\<close> (0 is Sunday, the epoch was
  a Thursday), the hour is \<open>floor (t / msPerHour) mod 24\<close>. On an invalid date both
  are \<^verbatim>\<open>NaN\<close>, here \<open>None\<close>.
\<close>

definition msPerHour :: int where
  "msPerHour = 3600000"

definition msPerDay :: int where
  "msPerDay = 86400000"

definition localTime :: "platform \<Rightarrow> int \<Rightarrow> int" where
  "localTime P t = t + localTZA P t"

definition weekDay :: "platform \<Rightarrow> int \<Rightarrow> int" where
  "weekDay P t = (localTime P t div msPerDay + 4) mod 7"

definition hourOfDay :: "platform \<Rightarrow> int \<Rightarrow> int" where
  "hourOfDay P t = (localTime P t div msPerHour) mod 24"

definition getDay :: "platform \<Rightarrow> int option \<Rightarrow> int option" where
  "getDay P d = map_option (weekDay P) d"

definition getHours :: "platform \<Rightarrow> int option \<Rightarrow> int option" where
  "getHours P d = map_option (hourOfDay P) d"

text \<open>\<^verbatim>\<open>new Date(req.body.date)\<close>; an absent field gives an invalid date.\<close>

definition dateOf :: "platform \<Rightarrow> string option \<Rightarrow> int option" where
  "dateOf P v = (case v of None \<Rightarrow> None | Some s \<Rightarrow> newDate P s)"

text \<open>\<^verbatim>\<open>[6, 0, 1, 2, 3].includes(dayOfWeek)\<close>: \<^verbatim>\<open>NaN\<close> is not in the list.\<close>

definition dayIncluded :: "int option \<Rightarrow> bool" where
  "dayIncluded dayOfWeek = (case dayOfWeek of None \<Rightarrow> False | Some d \<Rightarrow> d \<in> set [6, 0, 1, 2, 3])"

text \<open>\<^verbatim>\<open>hour < 8 || hour >= 18\<close>: both comparisons are false on \<^verbatim>\<open>NaN\<close>.\<close>

definition hourOutside :: "int option \<Rightarrow> bool" where
  "hourOutside hour = (case hour of None \<Rightarrow> False | Some h \<Rightarrow> h < 8 \<or> h \<ge> 18)"

text \<open>
  The working-hours block of the two appointment handlers (creation says ``booked'',
  update says ``scheduled'' in its messages): the response it returns, if any.
\<close>

definition workingHoursError :: "platform \<Rightarrow> string \<Rightarrow> string option \<Rightarrow> error option" where
  "workingHoursError P verb date =
     (let appointmentDate = dateOf P date;
          dayOfWeek = getDay P appointmentDate;
          hour = getHours P appointmentDate
      in if \<not> dayIncluded dayOfWeek
         then Some (BadRequest (''Appointments can only be '' @ verb @ '' from Saturday to Wednesday''))
         else if hourOutside hour
         then Some (BadRequest (''Appointments can only be '' @ verb @ '' between 8 AM and 6 PM''))
         else None)"

section \<open>Documents and the store\<close>

record user =
  u_id :: objectId
  u_name :: string
  u_email :: string
  u_role :: role

record service =
  s_id :: objectId
  s_name :: string
  s_description :: "string option"
  s_duration :: real
  s_price :: real
  s_isActive :: bool
  s_createdBy :: objectId

record appointment =
  a_id :: objectId
  a_user :: objectId
  a_doctor :: objectId
  a_date :: int
  a_status :: string
  a_notes :: "string option"
  a_service :: objectId
  a_createdAt :: "int option"

record payment =
  p_id :: objectId
  p_user :: objectId
  p_appointment :: objectId
  p_amount :: real
  p_status :: string
  p_paymentMethod :: "string option"
  p_createdAt :: "int option"

record reminder =
  r_id :: objectId
  r_user :: objectId
  r_appointment :: objectId
  r_title :: string
  r_message :: string
  r_date :: int
  r_isRead :: bool

record emergencyContact =
  ec_name :: "string option"
  ec_phone :: "string option"
  ec_relationship :: "string option"

record patientInfo =
  pi_id :: objectId
  pi_patientId :: objectId
  pi_age :: "real option"
  pi_gender :: "string option"
  pi_address :: "string option"
  pi_bloodType :: "string option"
  pi_medicalHistory :: "string option"
  pi_allergies :: "string option"
  pi_medications :: "string option"
  pi_emergencyContact :: "emergencyContact option"
  pi_lastVisit :: "int option"
  pi_createdAt :: int
  pi_updatedAt :: int

text \<open>The collections, each in insertion order.\<close>

record store =
  users :: "user list"
  services :: "service list"
  appointments :: "appointment list"
  payments :: "payment list"
  reminders :: "reminder list"
  patientInfos :: "patientInfo list"

text \<open>\<^verbatim>\<open>Model.findOne(filter)\<close>: the first document that matches.\<close>

definition findOne :: "('a \<Rightarrow> bool) \<Rightarrow> 'a list \<Rightarrow> 'a option" where
  "findOne f xs = List.find f xs"

text \<open>\<^verbatim>\<open>doc.save()\<close> of a loaded document and \<^verbatim>\<open>doc.remove()\<close>, by identifier.\<close>

definition replaceBy :: "('a \<Rightarrow> objectId) \<Rightarrow> 'a \<Rightarrow> 'a list \<Rightarrow> 'a list" where
  "replaceBy key d xs = map (\<lambda>x. if key x = key d then d else x) xs"

definition removeBy :: "('a \<Rightarrow> objectId) \<Rightarrow> 'a \<Rightarrow> 'a list \<Rightarrow> 'a list" where
  "removeBy key d xs = filter (\<lambda>x. key x \<noteq> key d) xs"

section \<open>Appointments\<close>

text \<open>
  The properties of a request body that are paths of \<^verbatim>\<open>appointmentSchema\<close>: the six
  that the validation chains name, and \<^verbatim>\<open>_id\<close> and \<^verbatim>\<open>createdAt\<close>, which no chain
  looks at but which \<^verbatim>\<open>new Appointment(req.body)\<close> and
  \<^verbatim>\<open>Object.assign(appointment, req.body)\<close> take like the others. The last two are
  given as the schema's cast reads them: \<open>b_id\<close> is the identifier the body's
  \<^verbatim>\<open>_id\<close> casts to, \<open>b_createdAt\<close> is \<open>Some None\<close> for null and
  \<open>Some (Some t)\<close> for a date. (A value that does not cast makes \<^verbatim>\<open>save\<close>
  throw; such a body has no counterpart here.)
\<close>

record appointmentBody =
  b_user :: "string option"
  b_doctor :: "string option"
  b_date :: "string option"
  b_service :: "string option"
  b_status :: "string option"
  b_notes :: "string option"
  b_id :: "objectId option"
  b_createdAt :: "int option option"

text \<open>
  \<^verbatim>\<open>validateAppointment\<close> followed by \<^verbatim>\<open>validationResult(req).isEmpty()\<close>. The chains
  for user, doctor, date and service are not optional: an absent field fails its
  validator. The chain for status is optional, the one for notes only sanitizes.
\<close>

definition requiredField :: "(string \<Rightarrow> bool) \<Rightarrow> string option \<Rightarrow> bool" where
  "requiredField ok v = (case v of None \<Rightarrow> False | Some s \<Rightarrow> ok s)"

definition optionalField :: "(string \<Rightarrow> bool) \<Rightarrow> string option \<Rightarrow> bool" where
  "optionalField ok v = (case v of None \<Rightarrow> True | Some s \<Rightarrow> ok s)"

definition appointmentStatuses :: "string list" where
  "appointmentStatuses = [''scheduled'', ''completed'', ''cancelled'']"

definition validateAppointment :: "platform \<Rightarrow> appointmentBody \<Rightarrow> bool" where
  "validateAppointment P b =
     (requiredField (isMongoId P) (b_user b) \<and>
      requiredField (isMongoId P) (b_doctor b) \<and>
      requiredField (isISO8601 P) (b_date b) \<and>
      requiredField (isMongoId P) (b_service b) \<and>
      optionalField (\<lambda>s. s \<in> set appointmentStatuses) (b_status b))"

text \<open>The sanitizer of the notes chain rewrites \<^verbatim>\<open>req.body.notes\<close>.\<close>

definition sanitizeAppointment :: "platform \<Rightarrow> appointmentBody \<Rightarrow> appointmentBody" where
  "sanitizeAppointment P b = b\<lparr>b_notes := map_option (trim P) (b_notes b)\<rparr>"

text \<open>\<^verbatim>\<open>!service || !service.isActive\<close> after \<^verbatim>\<open>Service.findById(req.body.service)\<close>.\<close>

definition serviceUnavailable :: "store \<Rightarrow> string option \<Rightarrow> bool" where
  "serviceUnavailable st sid =
     (case sid of
        None \<Rightarrow> True
      | Some i \<Rightarrow>
          (case findOne (\<lambda>s. s_id s = i) (services st) of
             None \<Rightarrow> True
           | Some s \<Rightarrow> \<not> s_isActive s))"

text \<open>
  \<^verbatim>\<open>new Appointment(req.body)\<close> with the schema's defaults (status scheduled, createdAt
  now, a fresh identifier) for the paths the body leaves out, and its trim of notes.
  The required fields must be there and the date must cast to a valid date, else
  \<^verbatim>\<open>save\<close> throws. (The store's refusal of an identifier that is already taken is
  not modelled.)
\<close>

definition newAppointment :: "platform \<Rightarrow> int \<Rightarrow> objectId \<Rightarrow> appointmentBody \<Rightarrow> appointment option" where
  "newAppointment P now newId b =
     (case (b_user b, b_doctor b, dateOf P (b_date b), b_service b) of
        (Some u, Some d, Some t, Some s) \<Rightarrow>
          Some \<lparr>a_id = (case b_id b of None \<Rightarrow> newId | Some i \<Rightarrow> i),
                a_user = u, a_doctor = d, a_date = t,
                a_status = (case b_status b of None \<Rightarrow> ''scheduled'' | Some x \<Rightarrow> x),
                a_notes = map_option (trim P) (b_notes b),
                a_service = s,
                a_createdAt = (case b_createdAt b of None \<Rightarrow> Some now | Some c \<Rightarrow> c)\<rparr>
      | _ \<Rightarrow> None)"

text \<open>\<^verbatim>\<open>POST /api/appointments\<close>.\<close>

definition createAppointment ::
  "platform \<Rightarrow> int \<Rightarrow> objectId \<Rightarrow> store \<Rightarrow> actor \<Rightarrow> appointmentBody \<Rightarrow> store \<times> (error + appointment)" where
  "createAppointment P now newId st act reqBody =
     (if \<not> validateAppointment P reqBody then (st, Inl ValidationErrors)
      else
        let body0 = sanitizeAppointment P reqBody;
            body = (if role act = Patient then body0\<lparr>b_user := Some (actor_id act)\<rparr> else body0)
        in if serviceUnavailable st (b_service body)
           then (st, Inl (BadRequest ''Selected service is not available''))
           else
             (case workingHoursError P ''booked'' (b_date body) of
                Some e \<Rightarrow> (st, Inl e)
              | None \<Rightarrow>
                  (case newAppointment P now newId body of
                     None \<Rightarrow> (st, Inl ServerError)
                   | Some a \<Rightarrow> (st\<lparr>appointments := appointments st @ [a]\<rparr>, Inr a))))"

text \<open>
  \<^verbatim>\<open>Object.assign(appointment, req.body)\<close> and \<^verbatim>\<open>save\<close>: each schema path present
  in the body overwrites the document's, createdAt included; the others stay. The
  identifier of a stored document is not a path that an assignment changes. A date that
  does not cast to a valid date makes \<^verbatim>\<open>save\<close> throw.
\<close>

definition assignAppointment :: "platform \<Rightarrow> appointment \<Rightarrow> appointmentBody \<Rightarrow> appointment option" where
  "assignAppointment P a b =
     (let a1 = a\<lparr>a_user := (case b_user b of None \<Rightarrow> a_user a | Some u \<Rightarrow> u),
                 a_doctor := (case b_doctor b of None \<Rightarrow> a_doctor a | Some d \<Rightarrow> d),
                 a_service := (case b_service b of None \<Rightarrow> a_service a | Some s \<Rightarrow> s),
                 a_status := (case b_status b of None \<Rightarrow> a_status a | Some x \<Rightarrow> x),
                 a_notes := (case b_notes b of None \<Rightarrow> a_notes a | Some n \<Rightarrow> Some (trim P n)),
                 a_createdAt := (case b_createdAt b of None \<Rightarrow> a_createdAt a | Some c \<Rightarrow> c)\<rparr>
      in case b_date b of
           None \<Rightarrow> Some a1
         | Some s \<Rightarrow>
             (case newDate P s of
                None \<Rightarrow> None
              | Some t \<Rightarrow> Some (a1\<lparr>a_date := t\<rparr>)))"

text \<open>\<^verbatim>\<open>PUT /api/appointments/:id\<close>.\<close>

definition updateAppointment ::
  "platform \<Rightarrow> store \<Rightarrow> actor \<Rightarrow> objectId \<Rightarrow> appointmentBody \<Rightarrow> store \<times> (error + appointment)" where
  "updateAppointment P st act ident reqBody =
     (if \<not> validateAppointment P reqBody then (st, Inl ValidationErrors)
      else
        let body = sanitizeAppointment P reqBody in
        case findOne (\<lambda>a. a_id a = ident) (appointments st) of
          None \<Rightarrow> (st, Inl (NotFound ''Appointment not found''))
        | Some appointment \<Rightarrow>
            let isPatient = (role act = Patient);
                isStaff = (role act \<in> set [Doctor, Assistant]);
                isOwner = (a_user appointment = actor_id act)
            in if \<not> isStaff \<and> \<not> isOwner
               then (st, Inl (Forbidden ''Not authorized to update this appointment''))
               else if isPatient \<and> truthyStr (b_status body) \<and> b_status body \<noteq> Some (a_status appointment)
               then (st, Inl (Forbidden ''Patients cannot change appointment status''))
               else if truthyStr (b_service body) \<and> b_service body \<noteq> Some (a_service appointment)
                       \<and> serviceUnavailable st (b_service body)
               then (st, Inl (BadRequest ''Selected service is not available''))
               else
                 (case (if truthyStr (b_date body)
                        then workingHoursError P ''scheduled'' (b_date body) else None) of
                    Some e \<Rightarrow> (st, Inl e)
                  | None \<Rightarrow>
                      (case assignAppointment P appointment body of
                         None \<Rightarrow> (st, Inl ServerError)
                       | Some a \<Rightarrow>
                           (st\<lparr>appointments := replaceBy a_id a (appointments st)\<rparr>, Inr a))))"

text \<open>
  \<^verbatim>\<open>GET /api/appointments/:id\<close>. The check is
  \<^verbatim>\<open>role === 'patient' && appointment.user._id.toString() !== req.user._id.toString()\<close>:
  the owner is read through the populated user document, and only when the caller is a
  patient. When that user no longer exists the populated field is null and the read
  throws.
\<close>

definition getAppointment :: "store \<Rightarrow> actor \<Rightarrow> objectId \<Rightarrow> error + appointment" where
  "getAppointment st act ident =
     (case findOne (\<lambda>a. a_id a = ident) (appointments st) of
        None \<Rightarrow> Inl (NotFound ''Appointment not found'')
      | Some appointment \<Rightarrow>
          if role act = Patient
          then (case findOne (\<lambda>u. u_id u = a_user appointment) (users st) of
                  None \<Rightarrow> Inl ServerError
                | Some owner \<Rightarrow>
                    if u_id owner \<noteq> actor_id act
                    then Inl (Forbidden ''Not authorized to view this appointment'')
                    else Inr appointment)
          else Inr appointment)"

text \<open>\<^verbatim>\<open>GET /api/appointments\<close>: the query is by user for a patient, empty otherwise.\<close>

definition listAppointments :: "store \<Rightarrow> actor \<Rightarrow> appointment list" where
  "listAppointments st act =
     (if role act = Patient
      then filter (\<lambda>a. a_user a = actor_id act) (appointments st)
      else appointments st)"

text \<open>
  \<^verbatim>\<open>GET /api/appointments/user/:userId\<close>; the documents are returned here in the
  store's order, the response sorts them by date.
\<close>

definition listAppointmentsForUser :: "store \<Rightarrow> actor \<Rightarrow> objectId \<Rightarrow> error + appointment list" where
  "listAppointmentsForUser st act userId =
     (if actor_id act \<noteq> userId \<and> role act \<notin> set [Doctor, Assistant]
      then Inl (Forbidden ''Not authorized to view these appointments'')
      else Inr (filter (\<lambda>a. a_user a = userId) (appointments st)))"

text \<open>\<^verbatim>\<open>DELETE /api/appointments/:id\<close>.\<close>

definition cancelAppointment :: "store \<Rightarrow> actor \<Rightarrow> objectId \<Rightarrow> store \<times> (error + string)" where
  "cancelAppointment st act ident =
     (case findOne (\<lambda>a. a_id a = ident) (appointments st) of
        None \<Rightarrow> (st, Inl (NotFound ''Appointment not found''))
      | Some appointment \<Rightarrow>
          if a_user appointment \<noteq> actor_id act
          then (st, Inl (Forbidden ''Only the patient who booked the appointment can cancel it''))
          else (st\<lparr>appointments := removeBy a_id appointment (appointments st)\<rparr>,
                Inr ''Appointment cancelled successfully''))"

section \<open>Payments\<close>

text \<open>
  The properties of a request body that are paths of \<^verbatim>\<open>paymentSchema\<close>;
  \<^verbatim>\<open>_id\<close> and \<^verbatim>\<open>createdAt\<close> are given as for appointments.
\<close>

record paymentBody =
  pb_user :: "string option"
  pb_appointment :: "string option"
  pb_amount :: "real option"
  pb_status :: "string option"
  pb_paymentMethod :: "string option"
  pb_id :: "objectId option"
  pb_createdAt :: "int option option"

definition paymentStatuses :: "string list" where
  "paymentStatuses = [''pending'', ''completed'', ''failed'']"

text \<open>
  \<^verbatim>\<open>validatePayment\<close>; \<^verbatim>\<open>isFloat({ min: 0 })\<close> asks for a number that is at
  least 0.
\<close>

definition validatePayment :: "platform \<Rightarrow> paymentBody \<Rightarrow> bool" where
  "validatePayment P b =
     (requiredField (isMongoId P) (pb_user b) \<and>
      requiredField (isMongoId P) (pb_appointment b) \<and>
      (case pb_amount b of None \<Rightarrow> False | Some x \<Rightarrow> 0 \<le> x) \<and>
      optionalField (\<lambda>s. s \<in> set paymentStatuses) (pb_status b))"

definition sanitizePayment :: "platform \<Rightarrow> paymentBody \<Rightarrow> paymentBody" where
  "sanitizePayment P b = b\<lparr>pb_paymentMethod := map_option (trim P) (pb_paymentMethod b)\<rparr>"

text \<open>
  \<^verbatim>\<open>new Payment(req.body)\<close> with the schema of \<^verbatim>\<open>models/Payment.js\<close>: user,
  appointment and amount are required, the amount has minimum 0, the status defaults
  to pending, createdAt to now and the identifier to a fresh one.
\<close>

definition newPayment :: "platform \<Rightarrow> int \<Rightarrow> objectId \<Rightarrow> paymentBody \<Rightarrow> payment option" where
  "newPayment P now newId b =
     (case (pb_user b, pb_appointment b, pb_amount b) of
        (Some u, Some a, Some x) \<Rightarrow>
          if x < 0 then None
          else Some \<lparr>p_id = (case pb_id b of None \<Rightarrow> newId | Some i \<Rightarrow> i),
                     p_user = u, p_appointment = a, p_amount = x,
                     p_status = (case pb_status b of None \<Rightarrow> ''pending'' | Some s \<Rightarrow> s),
                     p_paymentMethod = map_option (trim P) (pb_paymentMethod b),
                     p_createdAt = (case pb_createdAt b of None \<Rightarrow> Some now | Some c \<Rightarrow> c)\<rparr>
      | _ \<Rightarrow> None)"

text \<open>\<^verbatim>\<open>POST /api/payments\<close>.\<close>

definition createPayment ::
  "platform \<Rightarrow> int \<Rightarrow> objectId \<Rightarrow> store \<Rightarrow> actor \<Rightarrow> paymentBody \<Rightarrow> store \<times> (error + payment)" where
  "createPayment P now newId st act reqBody =
     (if \<not> validatePayment P reqBody then (st, Inl ValidationErrors)
      else
        let body0 = sanitizePayment P reqBody;
            body = (if role act = Patient then body0\<lparr>pb_user := Some (actor_id act)\<rparr> else body0)
        in case newPayment P now newId body of
             None \<Rightarrow> (st, Inl ServerError)
           | Some p \<Rightarrow> (st\<lparr>payments := payments st @ [p]\<rparr>, Inr p))"

text \<open>
  \<^verbatim>\<open>GET /api/payments/:id\<close>. Here the comparison with the populated user comes
  first in the condition, so it is evaluated for every caller.
\<close>

definition getPayment :: "store \<Rightarrow> actor \<Rightarrow> objectId \<Rightarrow> error + payment" where
  "getPayment st act ident =
     (case findOne (\<lambda>p. p_id p = ident) (payments st) of
        None \<Rightarrow> Inl (NotFound ''Payment not found'')
      | Some payment \<Rightarrow>
          (case findOne (\<lambda>u. u_id u = p_user payment) (users st) of
             None \<Rightarrow> Inl ServerError
           | Some owner \<Rightarrow>
               if u_id owner \<noteq> actor_id act \<and> role act \<notin> set [Doctor, Assistant]
               then Inl (Forbidden ''Not authorized to view this payment'')
               else Inr payment))"

text \<open>
  \<^verbatim>\<open>GET /api/payments/user/:userId\<close>: the list of roles of this check holds doctor
  only. The documents are returned in the store's order; the response sorts them by
  creation time.
\<close>

definition listPaymentsForUser :: "store \<Rightarrow> actor \<Rightarrow> objectId \<Rightarrow> error + payment list" where
  "listPaymentsForUser st act userId =
     (if actor_id act \<noteq> userId \<and> role act \<notin> set [Doctor]
      then Inl (Forbidden ''Not authorized to view these payments'')
      else Inr (filter (\<lambda>p. p_user p = userId) (payments st)))"

section \<open>Reminders\<close>

text \<open>
  \<^verbatim>\<open>GET /api/reminders/user/:userId\<close>; the documents are returned in the store's
  order, the response sorts them by date.
\<close>

definition listRemindersForUser :: "store \<Rightarrow> actor \<Rightarrow> objectId \<Rightarrow> error + reminder list" where
  "listRemindersForUser st act userId =
     (if actor_id act \<noteq> userId \<and> role act \<notin> set [Doctor, Assistant]
      then Inl (Forbidden ''Not authorized to view these reminders'')
      else Inr (filter (\<lambda>r. r_user r = userId) (reminders st)))"

text \<open>\<^verbatim>\<open>PUT /api/reminders/:id/read\<close>.\<close>

definition markReminderRead :: "store \<Rightarrow> actor \<Rightarrow> objectId \<Rightarrow> store \<times> (error + reminder)" where
  "markReminderRead st act ident =
     (case findOne (\<lambda>r. r_id r = ident) (reminders st) of
        None \<Rightarrow> (st, Inl (NotFound ''Reminder not found''))
      | Some reminder \<Rightarrow>
          if r_user reminder \<noteq> actor_id act
          then (st, Inl (Forbidden ''Not authorized to update this reminder''))
          else
            let r = reminder\<lparr>r_isRead := True\<rparr>
            in (st\<lparr>reminders := replaceBy r_id r (reminders st)\<rparr>, Inr r))"

text \<open>\<^verbatim>\<open>DELETE /api/reminders/:id\<close>.\<close>

definition deleteReminder :: "store \<Rightarrow> actor \<Rightarrow> objectId \<Rightarrow> store \<times> (error + string)" where
  "deleteReminder st act ident =
     (case findOne (\<lambda>r. r_id r = ident) (reminders st) of
        None \<Rightarrow> (st, Inl (NotFound ''Reminder not found''))
      | Some reminder \<Rightarrow>
          if r_user reminder \<noteq> actor_id act \<and> role act \<notin> set [Doctor, Assistant]
          then (st, Inl (Forbidden ''Not authorized to delete this reminder''))
          else (st\<lparr>reminders := removeBy r_id reminder (reminders st)\<rparr>,
                Inr ''Reminder deleted successfully''))"

section \<open>Patient information\<close>

text \<open>
  The fields of a request body that the patient-information routes can receive. No
  statement of the handlers reads \<^verbatim>\<open>req.body.lastVisit\<close>; the field is here so that a
  request can carry one. \<open>ib_updateLastVisit\<close> is the truthiness of
  \<^verbatim>\<open>req.body.updateLastVisit\<close>.
\<close>

record patientInfoBody =
  ib_patientId :: "string option"
  ib_age :: "real option"
  ib_gender :: "string option"
  ib_address :: "string option"
  ib_bloodType :: "string option"
  ib_medicalHistory :: "string option"
  ib_allergies :: "string option"
  ib_medications :: "string option"
  ib_emergencyContact :: "emergencyContact option"
  ib_lastVisit :: "int option"
  ib_updateLastVisit :: bool

definition genders :: "string list" where
  "genders = [''male'', ''female'', ''other'']"

definition bloodTypes :: "string list" where
  "bloodTypes = [''A+'', ''A-'', ''B+'', ''B-'', ''AB+'', ''AB-'', ''O+'', ''O-'']"

text \<open>The enum validators of \<^verbatim>\<open>patientInfoSchema\<close>, run by \<^verbatim>\<open>save\<close>.\<close>

definition patientInfoValid :: "patientInfo \<Rightarrow> bool" where
  "patientInfoValid p =
     (optionalField (\<lambda>g. g \<in> set genders) (pi_gender p) \<and>
      optionalField (\<lambda>t. t \<in> set bloodTypes) (pi_bloodType p))"

text \<open>\<^verbatim>\<open>patientId === 'me' ? req.user._id : patientId\<close>.\<close>

definition targetOf :: "actor \<Rightarrow> string \<Rightarrow> objectId" where
  "targetOf act patientId = (if patientId = ''me'' then actor_id act else patientId)"

text \<open>\<^verbatim>\<open>GET /api/users/patient-info/:patientId\<close>.\<close>

definition getPatientInfo :: "store \<Rightarrow> actor \<Rightarrow> string \<Rightarrow> error + patientInfo" where
  "getPatientInfo st act patientId =
     (let targetPatientId = targetOf act patientId
      in if actor_id act \<noteq> targetPatientId \<and> role act \<notin> set [Doctor, Assistant]
         then Inl (Forbidden ''Not authorized to view this patient info'')
         else
           (case findOne (\<lambda>p. pi_patientId p = targetPatientId) (patientInfos st) of
              None \<Rightarrow> Inl (NotFound ''Patient information not found'')
            | Some patientInfo \<Rightarrow> Inr patientInfo))"

text \<open>
  \<^verbatim>\<open>POST /api/users/patient-info\<close>: the strict create. The schema sets lastVisit to
  null and both timestamps to the current time.
\<close>

definition createPatientInfo ::
  "int \<Rightarrow> objectId \<Rightarrow> store \<Rightarrow> actor \<Rightarrow> patientInfoBody \<Rightarrow> store \<times> (error + patientInfo)" where
  "createPatientInfo now newId st act body =
     (let targetPatientId =
            (case ib_patientId body of
               None \<Rightarrow> actor_id act
             | Some i \<Rightarrow> if i \<noteq> [] then i else actor_id act)
      in if actor_id act \<noteq> targetPatientId \<and> role act \<notin> set [Doctor, Assistant]
         then (st, Inl (Forbidden ''Not authorized to create info for this patient''))
         else
           (case findOne (\<lambda>p. pi_patientId p = targetPatientId) (patientInfos st) of
              Some existing \<Rightarrow> (st, Inl (BadRequest ''Patient information already exists''))
            | None \<Rightarrow>
                let patientInfo =
                      \<lparr>pi_id = newId, pi_patientId = targetPatientId, pi_age = ib_age body,
                       pi_gender = ib_gender body, pi_address = ib_address body,
                       pi_bloodType = ib_bloodType body,
                       pi_medicalHistory = ib_medicalHistory body,
                       pi_allergies = ib_allergies body, pi_medications = ib_medications body,
                       pi_emergencyContact = ib_emergencyContact body,
                       pi_lastVisit = None, pi_createdAt = now, pi_updatedAt = now\<rparr>
                in if \<not> patientInfoValid patientInfo then (st, Inl ServerError)
                   else (st\<lparr>patientInfos := patientInfos st @ [patientInfo]\<rparr>, Inr patientInfo)))"

text \<open>\<^verbatim>\<open>new PatientInfo({ patientId: targetPatientId })\<close>.\<close>

definition blankPatientInfo :: "int \<Rightarrow> objectId \<Rightarrow> objectId \<Rightarrow> patientInfo" where
  "blankPatientInfo now newId targetPatientId =
     \<lparr>pi_id = newId, pi_patientId = targetPatientId, pi_age = None, pi_gender = None,
      pi_address = None, pi_bloodType = None, pi_medicalHistory = None, pi_allergies = None,
      pi_medications = None, pi_emergencyContact = None, pi_lastVisit = None,
      pi_createdAt = now, pi_updatedAt = now\<rparr>"

text \<open>The \<^verbatim>\<open>fieldsToUpdate.forEach\<close> loop: a field of the body that is not undefined is written.\<close>

definition orKeep :: "'a option \<Rightarrow> 'a option \<Rightarrow> 'a option" where
  "orKeep new old = (case new of None \<Rightarrow> old | Some v \<Rightarrow> Some v)"

definition updateFields :: "patientInfo \<Rightarrow> patientInfoBody \<Rightarrow> patientInfo" where
  "updateFields p body =
     p\<lparr>pi_age := orKeep (ib_age body) (pi_age p),
       pi_gender := orKeep (ib_gender body) (pi_gender p),
       pi_address := orKeep (ib_address body) (pi_address p),
       pi_bloodType := orKeep (ib_bloodType body) (pi_bloodType p),
       pi_medicalHistory := orKeep (ib_medicalHistory body) (pi_medicalHistory p),
       pi_allergies := orKeep (ib_allergies body) (pi_allergies p),
       pi_medications := orKeep (ib_medications body) (pi_medications p),
       pi_emergencyContact := orKeep (ib_emergencyContact body) (pi_emergencyContact p)\<rparr>"

text \<open>
  \<^verbatim>\<open>PUT /api/users/patient-info/:patientId\<close>: the update that creates the record when
  there is none. The schema's pre-save hook stamps updatedAt.
\<close>

definition updatePatientInfo ::
  "int \<Rightarrow> objectId \<Rightarrow> store \<Rightarrow> actor \<Rightarrow> string \<Rightarrow> patientInfoBody \<Rightarrow> store \<times> (error + patientInfo)" where
  "updatePatientInfo now newId st act patientId body =
     (let targetPatientId = targetOf act patientId
      in if actor_id act \<noteq> targetPatientId \<and> role act \<notin> set [Doctor, Assistant]
         then (st, Inl (Forbidden ''Not authorized to update this patient info''))
         else
           let found = findOne (\<lambda>p. pi_patientId p = targetPatientId) (patientInfos st);
               patientInfo0 = (case found of
                                 None \<Rightarrow> blankPatientInfo now newId targetPatientId
                               | Some p \<Rightarrow> p);
               patientInfo1 = updateFields patientInfo0 body;
               patientInfo2 = (if ib_updateLastVisit body
                               then patientInfo1\<lparr>pi_lastVisit := Some now\<rparr>
                               else patientInfo1)
           in if \<not> patientInfoValid patientInfo2 then (st, Inl ServerError)
              else
                let saved = patientInfo2\<lparr>pi_updatedAt := now\<rparr>
                in (case found of
                      None \<Rightarrow> (st\<lparr>patientInfos := patientInfos st @ [saved]\<rparr>, Inr saved)
                    | Some p \<Rightarrow>
                        (st\<lparr>patientInfos := replaceBy pi_id saved (patientInfos st)\<rparr>, Inr saved)))"

section \<open>Services\<close>

record serviceBody =
  sb_name :: "string option"
  sb_description :: "string option"
  sb_duration :: "real option"
  sb_price :: "real option"
  sb_isActive :: "bool option"

text \<open>
  The schema of \<^verbatim>\<open>models/services\<close> is not among the sources. The handlers take from
  it the default of isActive and the validation that \<^verbatim>\<open>save\<close> runs; both are
  parameters here.
\<close>

record serviceSchema =
  isActiveDefault :: bool
  serviceValid :: "service \<Rightarrow> bool"

text \<open>
  The handler of \<^verbatim>\<open>POST /api/services/create\<close>, which runs once the route's
  \<^verbatim>\<open>auth\<close> and \<^verbatim>\<open>authorize('doctor')\<close> middlewares have passed the request on.
\<close>

definition createService ::
  "serviceSchema \<Rightarrow> objectId \<Rightarrow> store \<Rightarrow> actor \<Rightarrow> serviceBody \<Rightarrow> store \<times> (error + service)" where
  "createService S newId st act body =
     (if \<not> truthyStr (sb_name body) \<or> \<not> truthyNum (sb_duration body) \<or> \<not> truthyNum (sb_price body)
      then (st, Inl (BadRequest ''Please provide name, duration, and price''))
      else
        (case (sb_name body, sb_duration body, sb_price body) of
           (Some name, Some duration, Some price) \<Rightarrow>
             (case findOne (\<lambda>s. s_name s = name) (services st) of
                Some existingService \<Rightarrow>
                  (st, Inl (BadRequest ''Service with this name already exists''))
              | None \<Rightarrow>
                  let service = \<lparr>s_id = newId, s_name = name,
                                 s_description = sb_description body,
                                 s_duration = duration, s_price = price,
                                 s_isActive = isActiveDefault S,
                                 s_createdBy = actor_id act\<rparr>
                  in if \<not> serviceValid S service then (st, Inl ServerError)
                     else (st\<lparr>services := services st @ [service]\<rparr>, Inr service))
         | _ \<Rightarrow> (st, Inl (BadRequest ''Please provide name, duration, and price''))))"

text \<open>
  The handler of \<^verbatim>\<open>PUT /api/services/edit-service/:id\<close>, behind the same
  middlewares. The name check runs when the body's name is truthy and differs from the
  service's; the fields are then written one by one, each under its own test.
\<close>

definition nameTaken :: "store \<Rightarrow> service \<Rightarrow> string option \<Rightarrow> bool" where
  "nameTaken st service name =
     (case name of
        None \<Rightarrow> False
      | Some n \<Rightarrow>
          n \<noteq> [] \<and> n \<noteq> s_name service \<and> findOne (\<lambda>s. s_name s = n) (services st) \<noteq> None)"

definition editFields :: "service \<Rightarrow> serviceBody \<Rightarrow> service" where
  "editFields service body =
     (let s1 = (case sb_name body of
                  None \<Rightarrow> service
                | Some n \<Rightarrow> if n \<noteq> [] then service\<lparr>s_name := n\<rparr> else service);
          s2 = (case sb_description body of
                  None \<Rightarrow> s1
                | Some d \<Rightarrow> s1\<lparr>s_description := Some d\<rparr>);
          s3 = (case sb_duration body of
                  None \<Rightarrow> s2
                | Some d \<Rightarrow> if d \<noteq> 0 then s2\<lparr>s_duration := d\<rparr> else s2);
          s4 = (case sb_price body of
                  None \<Rightarrow> s3
                | Some p \<Rightarrow> s3\<lparr>s_price := p\<rparr>)
      in case sb_isActive body of
           None \<Rightarrow> s4
         | Some a \<Rightarrow> s4\<lparr>s_isActive := a\<rparr>)"

definition editService ::
  "serviceSchema \<Rightarrow> store \<Rightarrow> objectId \<Rightarrow> serviceBody \<Rightarrow> store \<times> (error + service)" where
  "editService S st ident body =
     (case findOne (\<lambda>s. s_id s = ident) (services st) of
        None \<Rightarrow> (st, Inl (NotFound ''Service not found''))
      | Some service \<Rightarrow>
          if nameTaken st service (sb_name body)
          then (st, Inl (BadRequest ''Service with this name already exists''))
          else
            let updated = editFields service body
            in if \<not> serviceValid S updated then (st, Inl ServerError)
               else (st\<lparr>services := replaceBy s_id updated (services st)\<rparr>, Inr updated))"

section \<open>Dashboard\<close>





section \<open>Sample data\<close>

text \<open>
  Double-precision addition for the sample server: the sum of the reals, rounded to the
  nearest number with a significand of 53 bits, a tie going to the even significand.
  (Overflow and subnormal numbers are left out; the sample amounts are far from both.)
  \<^verbatim>\<open>$sum\<close> adds the numbers one after the other.
\<close>

definition roundHalfEven :: "real \<Rightarrow> int" where
  "roundHalfEven y =
     (let f = \<lfloor>y\<rfloor>; r = y - of_int f
      in if r < 1 / 2 then f else if 1 / 2 < r then f + 1 else if even f then f else f + 1)"

definition binary64 :: "real \<Rightarrow> real" where
  "binary64 x =
     (if x = 0 then 0
      else let e = \<lfloor>log 2 \<bar>x\<bar>\<rfloor>; ulp = 2 powr (of_int e - 52)
           in sgn x * (ulp * of_int (roundHalfEven (\<bar>x\<bar> / ulp))))"

definition addDouble :: "real \<Rightarrow> real \<Rightarrow> real" where
  "addDouble x y = binary64 (x + y)"

definition sumDoubles :: "real list \<Rightarrow> real" where
  "sumDoubles xs = foldl addDouble 0 xs"

text \<open>
  A server running in UTC, with the dates of the week of the epoch: 1 January 1970 was a
  Thursday, so the 3rd is a Saturday and the 7th a Wednesday.
\<close>

definition serverUTC :: platform where
  "serverUTC =
     \<lparr>isMongoId = (\<lambda>s. length s = 24),
      isISO8601 = (\<lambda>s. s \<noteq> []),
      trim = (\<lambda>s. rev (dropWhile (\<lambda>c. c = CHR '' '') (rev (dropWhile (\<lambda>c. c = CHR '' '') s)))),
      newDate = map_of
        [(''1970-01-01T10:00'', 36000000),
         (''1970-01-03T07:59'', 201540000),
         (''1970-01-03T08:00'', 201600000),
         (''1970-01-07T17:59'', 583140000),
         (''1970-01-07T18:00'', 583200000)],
      localTZA = (\<lambda>t. 0),
      sumNumbers = sumDoubles\<rparr>"

definition alice :: actor where
  "alice = \<lparr>actor_id = ''64b000000000000000000001'', role = Patient\<rparr>"

definition bob :: actor where
  "bob = \<lparr>actor_id = ''64b000000000000000000002'', role = Patient\<rparr>"

definition drDana :: actor where
  "drDana = \<lparr>actor_id = ''64b000000000000000000003'', role = Doctor\<rparr>"

definition assistantEve :: actor where
  "assistantEve = \<lparr>actor_id = ''64b000000000000000000004'', role = Assistant\<rparr>"

definition userOf :: "actor \<Rightarrow> string \<Rightarrow> user" where
  "userOf a n = \<lparr>u_id = actor_id a, u_name = n, u_email = n @ ''@clinic.example'', u_role = role a\<rparr>"

definition cleaning :: service where
  "cleaning = \<lparr>s_id = ''64c000000000000000000001'', s_name = ''Cleaning'',
               s_description = None, s_duration = 30, s_price = 40, s_isActive = True,
               s_createdBy = ''64b000000000000000000003''\<rparr>"

definition whitening :: service where
  "whitening = \<lparr>s_id = ''64c000000000000000000002'', s_name = ''Whitening'',
                s_description = None, s_duration = 60, s_price = 120, s_isActive = True,
                s_createdBy = ''64b000000000000000000003''\<rparr>"

definition aliceVisit :: appointment where
  "aliceVisit = \<lparr>a_id = ''64d000000000000000000001'', a_user = ''64b000000000000000000001'',
                 a_doctor = ''64b000000000000000000003'', a_date = 201600000,
                 a_status = ''scheduled'', a_notes = Some ''first visit'',
                 a_service = ''64c000000000000000000001'', a_createdAt = Some 0\<rparr>"

definition payA :: payment where
  "payA = \<lparr>p_id = ''64e000000000000000000001'', p_user = ''64b000000000000000000001'',
           p_appointment = ''64d000000000000000000001'', p_amount = 40, p_status = ''completed'',
           p_paymentMethod = None, p_createdAt = Some 1\<rparr>"

definition payB :: payment where
  "payB = \<lparr>p_id = ''64e000000000000000000002'', p_user = ''64b000000000000000000002'',
           p_appointment = ''64d000000000000000000001'', p_amount = 15, p_status = ''pending'',
           p_paymentMethod = None, p_createdAt = Some 2\<rparr>"

definition payC :: payment where
  "payC = \<lparr>p_id = ''64e000000000000000000003'', p_user = ''64b000000000000000000001'',
           p_appointment = ''64d000000000000000000001'', p_amount = 25, p_status = ''completed'',
           p_paymentMethod = None, p_createdAt = Some 3\<rparr>"

text \<open>
  Two completed payments of a tenth and of a fifth: the doubles nearest to 0.1 and to
  0.2, which are \<open>3602879701896397 / 2^55\<close> and \<open>3602879701896397 / 2^54\<close>.
\<close>

definition payTenth :: payment where
  "payTenth = \<lparr>p_id = ''64e000000000000000000004'', p_user = ''64b000000000000000000001'',
               p_appointment = ''64d000000000000000000001'',
               p_amount = 3602879701896397 / 36028797018963968, p_status = ''completed'',
               p_paymentMethod = None, p_createdAt = Some 4\<rparr>"

definition payFifth :: payment where
  "payFifth = \<lparr>p_id = ''64e000000000000000000005'', p_user = ''64b000000000000000000001'',
               p_appointment = ''64d000000000000000000001'',
               p_amount = 3602879701896397 / 18014398509481984, p_status = ''completed'',
               p_paymentMethod = None, p_createdAt = Some 5\<rparr>"

definition aliceReminder :: reminder where
  "aliceReminder = \<lparr>r_id = ''64f000000000000000000001'', r_user = ''64b000000000000000000001'',
                    r_appointment = ''64d000000000000000000001'', r_title = ''Visit'',
                    r_message = ''Saturday at 8'', r_date = 201600000, r_isRead = False\<rparr>"

definition aliceInfo :: patientInfo where
  "aliceInfo = \<lparr>pi_id = ''64a000000000000000000001'', pi_patientId = ''64b000000000000000000001'',
                pi_age = Some 30, pi_gender = Some ''female'', pi_address = None,
                pi_bloodType = Some ''O+'', pi_medicalHistory = None, pi_allergies = None,
                pi_medications = None, pi_emergencyContact = None, pi_lastVisit = Some 5,
                pi_createdAt = 0, pi_updatedAt = 0\<rparr>"

definition clinic :: store where
  "clinic =
     \<lparr>users = [userOf alice ''alice'', userOf bob ''bob'', userOf drDana ''dana'',
               userOf assistantEve ''eve''],
      services = [cleaning, whitening],
      appointments = [aliceVisit],
      payments = [payA, payB, payC],
      reminders = [aliceReminder],
      patientInfos = [aliceInfo]\<rparr>"

text \<open>A complete appointment body: Alice, Dr Dana, the cleaning, at the given date.\<close>

definition bookingAt :: "string \<Rightarrow> appointmentBody" where
  "bookingAt d =
     \<lparr>b_user = Some ''64b000000000000000000001'', b_doctor = Some ''64b000000000000000000003'',
      b_date = Some d, b_service = Some ''64c000000000000000000001'',
      b_status = None, b_notes = None, b_id = None, b_createdAt = None\<rparr>"

definition anySchema :: serviceSchema where
  "anySchema = \<lparr>isActiveDefault = True, serviceValid = (\<lambda>s. 0 \<le> s_price s)\<rparr>"

lemmas sample_defs =
  serverUTC_def alice_def bob_def drDana_def assistantEve_def userOf_def cleaning_def
  whitening_def aliceVisit_def payA_def payB_def payC_def payTenth_def payFifth_def
  aliceReminder_def aliceInfo_def clinic_def bookingAt_def anySchema_def

section \<open>Auxiliary facts\<close>

lemmas date_defs =
  workingHoursError_def dateOf_def getDay_def getHours_def dayIncluded_def hourOutside_def
  weekDay_def hourOfDay_def localTime_def msPerDay_def msPerHour_def

lemma workingHoursError_Some:
  "newDate P d = Some t \<Longrightarrow>
   workingHoursError P verb (Some d) =
     (if weekDay P t \<notin> {6, 0, 1, 2, 3}
      then Some (BadRequest (''Appointments can only be '' @ verb @ '' from Saturday to Wednesday''))
      else if hourOfDay P t < 8 \<or> 18 \<le> hourOfDay P t
      then Some (BadRequest (''Appointments can only be '' @ verb @ '' between 8 AM and 6 PM''))
      else None)"
  by (simp add: workingHoursError_def dateOf_def getDay_def getHours_def dayIncluded_def
      hourOutside_def Let_def)

lemma workingHoursError_None_date:
  "workingHoursError P verb v = None \<Longrightarrow> \<exists>d t. v = Some d \<and> newDate P d = Some t"
  by (cases v)
     (auto simp: workingHoursError_def dateOf_def getDay_def dayIncluded_def Let_def
           split: if_splits option.splits)

lemma validateAppointment_fields:
  "validateAppointment P b \<Longrightarrow>
   \<exists>u dr d s. b_user b = Some u \<and> b_doctor b = Some dr \<and> b_date b = Some d \<and> b_service b = Some s"
  by (auto simp: validateAppointment_def requiredField_def split: option.splits)

section \<open>Working hours\<close>

text \<open>
  The examples of the specification on a server in UTC: Thursday 10:00 and Saturday
  07:59 are refused, Saturday 08:00 and Wednesday 17:59 pass, Wednesday 18:00 is
  refused.
\<close>

lemma working_hours_examples:
  "workingHoursError serverUTC ''booked'' (Some ''1970-01-01T10:00'')
     = Some (BadRequest ''Appointments can only be booked from Saturday to Wednesday'')"
  "workingHoursError serverUTC ''booked'' (Some ''1970-01-03T07:59'')
     = Some (BadRequest ''Appointments can only be booked between 8 AM and 6 PM'')"
  "workingHoursError serverUTC ''booked'' (Some ''1970-01-03T08:00'') = None"
  "workingHoursError serverUTC ''booked'' (Some ''1970-01-07T17:59'') = None"
  "workingHoursError serverUTC ''booked'' (Some ''1970-01-07T18:00'')
     = Some (BadRequest ''Appointments can only be booked between 8 AM and 6 PM'')"
  by (simp_all add: date_defs serverUTC_def)

text \<open>
  C1. Let a request pass validation and carry a date string that the \<^verbatim>\<open>Date\<close>
  constructor reads as the time value \<open>t\<close>. The working-hours block lets it through
  exactly when the local week day of \<open>t\<close> is Saturday (6), Sunday (0), Monday (1),
  Tuesday (2) or Wednesday (3) and the local hour is at least 8 and below 18. A creation
  that has reached the block (the service is available) then stores the appointment with
  that date, and otherwise answers 400 with one of the two working-hours messages and
  leaves the store as it was; so does an update that has reached the block (appointment
  found, caller authorized, no status change by a patient, service unchanged or
  available) and supplies the date.
\<close>

theorem temporal_validity:
  assumes v: "validateAppointment P b"
    and d: "b_date b = Some d"
    and t: "newDate P d = Some t"
  shows
    "(workingHoursError P verb (b_date b) = None) =
       (weekDay P t \<in> {6, 0, 1, 2, 3} \<and> 8 \<le> hourOfDay P t \<and> hourOfDay P t < 18)
     \<and> (\<not> serviceUnavailable st (b_service b) \<longrightarrow>
          (if weekDay P t \<in> {6, 0, 1, 2, 3} \<and> 8 \<le> hourOfDay P t \<and> hourOfDay P t < 18
           then \<exists>a. createAppointment P now newId st act b
                      = (st\<lparr>appointments := appointments st @ [a]\<rparr>, Inr a) \<and> a_date a = t
           else createAppointment P now newId st act b
                  = (st, Inl (BadRequest ''Appointments can only be booked from Saturday to Wednesday''))
              \<or> createAppointment P now newId st act b
                  = (st, Inl (BadRequest ''Appointments can only be booked between 8 AM and 6 PM''))))
     \<and> (findOne (\<lambda>a. a_id a = ident) (appointments st) = Some a0 \<and>
        (role act \<in> {Doctor, Assistant} \<or> a_user a0 = actor_id act) \<and>
        (role act = Patient \<longrightarrow> b_status b = None \<or> b_status b = Some (a_status a0)) \<and>
        (b_service b = Some (a_service a0) \<or> \<not> serviceUnavailable st (b_service b)) \<and>
        d \<noteq> [] \<longrightarrow>
          (if weekDay P t \<in> {6, 0, 1, 2, 3} \<and> 8 \<le> hourOfDay P t \<and> hourOfDay P t < 18
           then \<exists>a. updateAppointment P st act ident b
                      = (st\<lparr>appointments := replaceBy a_id a (appointments st)\<rparr>, Inr a) \<and> a_date a = t
           else updateAppointment P st act ident b
                  = (st, Inl (BadRequest ''Appointments can only be scheduled from Saturday to Wednesday''))
              \<or> updateAppointment P st act ident b
                  = (st, Inl (BadRequest ''Appointments can only be scheduled between 8 AM and 6 PM''))))"
proof -
  have w: "\<And>verb. workingHoursError P verb (Some d) =
     (if weekDay P t \<notin> {6, 0, 1, 2, 3}
      then Some (BadRequest (''Appointments can only be '' @ verb @ '' from Saturday to Wednesday''))
      else if hourOfDay P t < 8 \<or> 18 \<le> hourOfDay P t
      then Some (BadRequest (''Appointments can only be '' @ verb @ '' between 8 AM and 6 PM''))
      else None)"
    using t by (rule workingHoursError_Some)
  from v obtain u dr s where f: "b_user b = Some u" "b_doctor b = Some dr" "b_service b = Some s"
    using validateAppointment_fields by blast
  have 1: "(workingHoursError P verb (b_date b) = None) =
       (weekDay P t \<in> {6, 0, 1, 2, 3} \<and> 8 \<le> hourOfDay P t \<and> hourOfDay P t < 18)"
    unfolding d w by auto
  have 2: "\<not> serviceUnavailable st (b_service b) \<longrightarrow>
          (if weekDay P t \<in> {6, 0, 1, 2, 3} \<and> 8 \<le> hourOfDay P t \<and> hourOfDay P t < 18
           then \<exists>a. createAppointment P now newId st act b
                      = (st\<lparr>appointments := appointments st @ [a]\<rparr>, Inr a) \<and> a_date a = t
           else createAppointment P now newId st act b
                  = (st, Inl (BadRequest ''Appointments can only be booked from Saturday to Wednesday''))
              \<or> createAppointment P now newId st act b
                  = (st, Inl (BadRequest ''Appointments can only be booked between 8 AM and 6 PM'')))"
    using v d t f
    by (auto simp: createAppointment_def sanitizeAppointment_def w newAppointment_def
        dateOf_def Let_def)
  have 3: "findOne (\<lambda>a. a_id a = ident) (appointments st) = Some a0 \<and>
        (role act \<in> {Doctor, Assistant} \<or> a_user a0 = actor_id act) \<and>
        (role act = Patient \<longrightarrow> b_status b = None \<or> b_status b = Some (a_status a0)) \<and>
        (b_service b = Some (a_service a0) \<or> \<not> serviceUnavailable st (b_service b)) \<and>
        d \<noteq> [] \<longrightarrow>
          (if weekDay P t \<in> {6, 0, 1, 2, 3} \<and> 8 \<le> hourOfDay P t \<and> hourOfDay P t < 18
           then \<exists>a. updateAppointment P st act ident b
                      = (st\<lparr>appointments := replaceBy a_id a (appointments st)\<rparr>, Inr a) \<and> a_date a = t
           else updateAppointment P st act ident b
                  = (st, Inl (BadRequest ''Appointments can only be scheduled from Saturday to Wednesday''))
              \<or> updateAppointment P st act ident b
                  = (st, Inl (BadRequest ''Appointments can only be scheduled between 8 AM and 6 PM'')))"
    using v d t f
    by (auto simp: updateAppointment_def sanitizeAppointment_def w assignAppointment_def
        truthyStr_def Let_def split: option.splits)
  from 1 2 3 show ?thesis by blast
qed

text \<open>
  On the sample server: Alice books Saturday 08:00 and the appointment is stored; moved
  to Wednesday 18:00 by an update, it is refused.
\<close>

theorem temporal_validity_witness:
  "validateAppointment serverUTC (bookingAt ''1970-01-03T08:00'')
   \<and> newDate serverUTC ''1970-01-03T08:00'' = Some 201600000
   \<and> workingHoursError serverUTC ''booked'' (b_date (bookingAt ''1970-01-03T08:00'')) = None
   \<and> weekDay serverUTC 201600000 = 6 \<and> hourOfDay serverUTC 201600000 = 8
   \<and> (\<exists>a. createAppointment serverUTC 7 ''64d000000000000000000002'' clinic alice
             (bookingAt ''1970-01-03T08:00'')
           = (clinic\<lparr>appointments := appointments clinic @ [a]\<rparr>, Inr a) \<and> a_date a = 201600000)"
proof -
  have v: "validateAppointment serverUTC (bookingAt ''1970-01-03T08:00'')"
    by (simp add: validateAppointment_def requiredField_def optionalField_def sample_defs)
  have d: "b_date (bookingAt ''1970-01-03T08:00'') = Some ''1970-01-03T08:00''"
    by (simp add: bookingAt_def)
  have t: "newDate serverUTC ''1970-01-03T08:00'' = Some 201600000"
    by (simp add: serverUTC_def)
  have s: "\<not> serviceUnavailable clinic (b_service (bookingAt ''1970-01-03T08:00''))"
    by (simp add: serviceUnavailable_def findOne_def sample_defs)
  have w: "weekDay serverUTC 201600000 = 6" "hourOfDay serverUTC 201600000 = 8"
    by (simp_all add: date_defs serverUTC_def)
  show ?thesis
    using temporal_validity [OF v d t, of "''booked''" clinic 7 "''64d000000000000000000002''" alice]
      v t s w
    by simp
qed

section \<open>Updates of an appointment\<close>

lemma findOne_replaceBy:
  "findOne (\<lambda>x. key x = i) xs = Some x0 \<Longrightarrow> key d = i \<Longrightarrow>
   findOne (\<lambda>x. key x = i) (replaceBy key d xs) = Some d"
  by (induction xs) (auto simp: findOne_def replaceBy_def split: if_splits)

lemma findOne_key:
  "findOne (\<lambda>x. key x = i) xs = Some x0 \<Longrightarrow> key x0 = i \<and> x0 \<in> set xs"
  by (induction xs) (auto simp: findOne_def split: if_splits)

lemma assignAppointment_fields:
  assumes "assignAppointment P a0 b = Some a"
  shows "a_id a = a_id a0"
    "a_createdAt a = (case b_createdAt b of None \<Rightarrow> a_createdAt a0 | Some c \<Rightarrow> c)"
    "a_user a = (case b_user b of None \<Rightarrow> a_user a0 | Some u \<Rightarrow> u)"
    "a_doctor a = (case b_doctor b of None \<Rightarrow> a_doctor a0 | Some d \<Rightarrow> d)"
    "a_service a = (case b_service b of None \<Rightarrow> a_service a0 | Some s \<Rightarrow> s)"
    "a_status a = (case b_status b of None \<Rightarrow> a_status a0 | Some s \<Rightarrow> s)"
    "a_notes a = (case b_notes b of None \<Rightarrow> a_notes a0 | Some n \<Rightarrow> Some (trim P n))"
    "a_date a = (case b_date b of None \<Rightarrow> a_date a0 | Some s \<Rightarrow> (case newDate P s of None \<Rightarrow> a_date a0 | Some t \<Rightarrow> t))"
proof -
  let ?a1 = "a0\<lparr>a_user := (case b_user b of None \<Rightarrow> a_user a0 | Some u \<Rightarrow> u),
                 a_doctor := (case b_doctor b of None \<Rightarrow> a_doctor a0 | Some d \<Rightarrow> d),
                 a_service := (case b_service b of None \<Rightarrow> a_service a0 | Some s \<Rightarrow> s),
                 a_status := (case b_status b of None \<Rightarrow> a_status a0 | Some x \<Rightarrow> x),
                 a_notes := (case b_notes b of None \<Rightarrow> a_notes a0 | Some n \<Rightarrow> Some (trim P n)),
                 a_createdAt := (case b_createdAt b of None \<Rightarrow> a_createdAt a0 | Some c \<Rightarrow> c)\<rparr>"
  have a: "a = (case b_date b of None \<Rightarrow> ?a1
                | Some s \<Rightarrow> (case newDate P s of None \<Rightarrow> ?a1 | Some t \<Rightarrow> ?a1\<lparr>a_date := t\<rparr>))"
  proof (cases "b_date b")
    case None
    with assms show ?thesis by (simp add: assignAppointment_def Let_def)
  next
    case (Some d)
    with assms show ?thesis
      by (cases "newDate P d") (simp_all add: assignAppointment_def Let_def)
  qed
  show "a_id a = a_id a0"
    unfolding a by (cases "b_date b"; cases "newDate P (the (b_date b))") simp_all
  show "a_createdAt a = (case b_createdAt b of None \<Rightarrow> a_createdAt a0 | Some c \<Rightarrow> c)"
    unfolding a by (cases "b_date b"; cases "newDate P (the (b_date b))") simp_all
  show "a_user a = (case b_user b of None \<Rightarrow> a_user a0 | Some u \<Rightarrow> u)"
    unfolding a by (cases "b_date b"; cases "newDate P (the (b_date b))") simp_all
  show "a_doctor a = (case b_doctor b of None \<Rightarrow> a_doctor a0 | Some d \<Rightarrow> d)"
    unfolding a by (cases "b_date b"; cases "newDate P (the (b_date b))") simp_all
  show "a_service a = (case b_service b of None \<Rightarrow> a_service a0 | Some s \<Rightarrow> s)"
    unfolding a by (cases "b_date b"; cases "newDate P (the (b_date b))") simp_all
  show "a_status a = (case b_status b of None \<Rightarrow> a_status a0 | Some s \<Rightarrow> s)"
    unfolding a by (cases "b_date b"; cases "newDate P (the (b_date b))") simp_all
  show "a_notes a = (case b_notes b of None \<Rightarrow> a_notes a0 | Some n \<Rightarrow> Some (trim P n))"
    unfolding a by (cases "b_date b"; cases "newDate P (the (b_date b))") simp_all
  show "a_date a = (case b_date b of None \<Rightarrow> a_date a0 | Some s \<Rightarrow> (case newDate P s of None \<Rightarrow> a_date a0 | Some t \<Rightarrow> t))"
    unfolding a by (cases "b_date b"; cases "newDate P (the (b_date b))") simp_all
qed

text \<open>What an accepted update went through, and what it stored.\<close>

lemma updateAppointment_Inr:
  assumes "updateAppointment P st act ident b = (st', Inr a)"
  shows "\<exists>a0. validateAppointment P b
            \<and> findOne (\<lambda>x. a_id x = ident) (appointments st) = Some a0
            \<and> assignAppointment P a0 (sanitizeAppointment P b) = Some a
            \<and> st' = st\<lparr>appointments := replaceBy a_id a (appointments st)\<rparr>"
proof (cases "findOne (\<lambda>x. a_id x = ident) (appointments st)")
  case None
  with assms show ?thesis
    by (simp add: updateAppointment_def Let_def split: if_splits)
next
  case (Some a0)
  with assms have "validateAppointment P b
      \<and> assignAppointment P a0 (sanitizeAppointment P b) = Some a
      \<and> st' = st\<lparr>appointments := replaceBy a_id a (appointments st)\<rparr>"
    by (simp add: updateAppointment_def Let_def split: if_splits option.splits)
  with Some show ?thesis by blast
qed

text \<open>The checks of the handler, in its order; an update that passes them all is stored.\<close>

lemma updateAppointment_accepted:
  assumes v: "validateAppointment P b"
    and found: "findOne (\<lambda>x. a_id x = ident) (appointments st) = Some a0"
    and auth: "role act \<in> {Doctor, Assistant} \<or> a_user a0 = actor_id act"
    and status: "role act = Patient \<longrightarrow> b_status b = None \<or> b_status b = Some (a_status a0)"
    and srv: "b_service b = Some (a_service a0) \<or> \<not> serviceUnavailable st (b_service b)"
    and hours: "workingHoursError P ''scheduled'' (b_date b) = None"
  shows "\<exists>a. assignAppointment P a0 (sanitizeAppointment P b) = Some a
            \<and> updateAppointment P st act ident b
                = (st\<lparr>appointments := replaceBy a_id a (appointments st)\<rparr>, Inr a)"
proof -
  from hours obtain d t where d: "b_date b = Some d" "newDate P d = Some t"
    using workingHoursError_None_date by blast
  then obtain a where a: "assignAppointment P a0 (sanitizeAppointment P b) = Some a"
    by (simp add: assignAppointment_def sanitizeAppointment_def Let_def)
  have st: "\<not> (role act = Patient \<and> truthyStr (b_status b) \<and> b_status b \<noteq> Some (a_status a0))"
    using status by (auto simp: truthyStr_def)
  have "updateAppointment P st act ident b
          = (st\<lparr>appointments := replaceBy a_id a (appointments st)\<rparr>, Inr a)"
    using v found auth st srv hours a
    by (auto simp: updateAppointment_def sanitizeAppointment_def Let_def)
  with a show ?thesis by blast
qed

text \<open>
  C3, as the code has it. The update route validates the body before anything else: a
  body that fails the validation (one that carries a status and leaves out the user,
  the doctor, the date or the service, for instance) is answered 400 with the
  validation errors, for a patient and for staff alike, and nothing is stored. Take
  then a body that passes the validation, for an existing appointment, with a status
  different from the appointment's. Sent by the patient who owns the appointment, it is
  answered 403 ``Patients cannot change appointment status'' and the store stays as it
  was. Sent by a doctor or an assistant, the same body is not stopped by the status
  rule: it is stored with the new status when the checks that follow accept it
  (service unchanged or available, date within working hours), and it is answered 400
  when the service it names is another one that is not available or when its date is
  outside working hours.
\<close>

theorem patient_status_change_forbidden:
  assumes found: "findOne (\<lambda>x. a_id x = ident) (appointments st) = Some a0"
    and s: "b_status b = Some s" "s \<noteq> a_status a0"
  shows
    "(\<not> validateAppointment P b \<longrightarrow>
        updateAppointment P st act ident b = (st, Inl ValidationErrors)
        \<and> updateAppointment P st staff ident b = (st, Inl ValidationErrors))
     \<and> (validateAppointment P b \<longrightarrow>
        (role act = Patient \<and> a_user a0 = actor_id act \<longrightarrow>
           updateAppointment P st act ident b
             = (st, Inl (Forbidden ''Patients cannot change appointment status'')))
        \<and> (role staff \<in> {Doctor, Assistant}
           \<and> (b_service b = Some (a_service a0) \<or> \<not> serviceUnavailable st (b_service b))
           \<and> workingHoursError P ''scheduled'' (b_date b) = None \<longrightarrow>
           (\<exists>a. updateAppointment P st staff ident b
                   = (st\<lparr>appointments := replaceBy a_id a (appointments st)\<rparr>, Inr a)
                 \<and> a_status a = s
                 \<and> findOne (\<lambda>x. a_id x = ident)
                      (appointments (fst (updateAppointment P st staff ident b))) = Some a))
        \<and> (role staff \<in> {Doctor, Assistant}
           \<and> truthyStr (b_service b) \<and> b_service b \<noteq> Some (a_service a0)
           \<and> serviceUnavailable st (b_service b) \<longrightarrow>
           updateAppointment P st staff ident b
             = (st, Inl (BadRequest ''Selected service is not available'')))
        \<and> (role staff \<in> {Doctor, Assistant}
           \<and> (b_service b = Some (a_service a0) \<or> \<not> serviceUnavailable st (b_service b))
           \<and> truthyStr (b_date b) \<and> workingHoursError P ''scheduled'' (b_date b) = Some e \<longrightarrow>
           updateAppointment P st staff ident b = (st, Inl e)))"
proof (rule conjI)
  show "\<not> validateAppointment P b \<longrightarrow>
        updateAppointment P st act ident b = (st, Inl ValidationErrors)
        \<and> updateAppointment P st staff ident b = (st, Inl ValidationErrors)"
    by (simp add: updateAppointment_def)
next
  show "validateAppointment P b \<longrightarrow>
        (role act = Patient \<and> a_user a0 = actor_id act \<longrightarrow>
           updateAppointment P st act ident b
             = (st, Inl (Forbidden ''Patients cannot change appointment status'')))
        \<and> (role staff \<in> {Doctor, Assistant}
           \<and> (b_service b = Some (a_service a0) \<or> \<not> serviceUnavailable st (b_service b))
           \<and> workingHoursError P ''scheduled'' (b_date b) = None \<longrightarrow>
           (\<exists>a. updateAppointment P st staff ident b
                   = (st\<lparr>appointments := replaceBy a_id a (appointments st)\<rparr>, Inr a)
                 \<and> a_status a = s
                 \<and> findOne (\<lambda>x. a_id x = ident)
                      (appointments (fst (updateAppointment P st staff ident b))) = Some a))
        \<and> (role staff \<in> {Doctor, Assistant}
           \<and> truthyStr (b_service b) \<and> b_service b \<noteq> Some (a_service a0)
           \<and> serviceUnavailable st (b_service b) \<longrightarrow>
           updateAppointment P st staff ident b
             = (st, Inl (BadRequest ''Selected service is not available'')))
        \<and> (role staff \<in> {Doctor, Assistant}
           \<and> (b_service b = Some (a_service a0) \<or> \<not> serviceUnavailable st (b_service b))
           \<and> truthyStr (b_date b) \<and> workingHoursError P ''scheduled'' (b_date b) = Some e \<longrightarrow>
           updateAppointment P st staff ident b = (st, Inl e))"
  proof (intro impI conjI)
    assume v: "validateAppointment P b"
    assume p: "role act = Patient \<and> a_user a0 = actor_id act"
    from v s have "s \<in> set appointmentStatuses"
      by (simp add: validateAppointment_def optionalField_def)
    then have "s \<noteq> []"
      by (auto simp: appointmentStatuses_def)
    then show "updateAppointment P st act ident b
            = (st, Inl (Forbidden ''Patients cannot change appointment status''))"
      using v found s p
      by (simp add: updateAppointment_def sanitizeAppointment_def truthyStr_def Let_def)
  next
    assume v: "validateAppointment P b"
    assume h: "role staff \<in> {Doctor, Assistant}
          \<and> (b_service b = Some (a_service a0) \<or> \<not> serviceUnavailable st (b_service b))
          \<and> workingHoursError P ''scheduled'' (b_date b) = None"
    then have np: "role staff \<noteq> Patient" by auto
    have "\<exists>a. assignAppointment P a0 (sanitizeAppointment P b) = Some a
              \<and> updateAppointment P st staff ident b
                  = (st\<lparr>appointments := replaceBy a_id a (appointments st)\<rparr>, Inr a)"
    proof (rule updateAppointment_accepted [OF v found])
      show "role staff \<in> {Doctor, Assistant} \<or> a_user a0 = actor_id staff"
        using h by simp
      show "role staff = Patient \<longrightarrow> b_status b = None \<or> b_status b = Some (a_status a0)"
        using np by simp
      show "b_service b = Some (a_service a0) \<or> \<not> serviceUnavailable st (b_service b)"
        using h by simp
      show "workingHoursError P ''scheduled'' (b_date b) = None"
        using h by simp
    qed
    then obtain a where a: "assignAppointment P a0 (sanitizeAppointment P b) = Some a"
      "updateAppointment P st staff ident b
         = (st\<lparr>appointments := replaceBy a_id a (appointments st)\<rparr>, Inr a)"
      by (elim exE conjE)
    from assignAppointment_fields(1,6) [OF a(1)] s
    have f: "a_id a = a_id a0" "a_status a = s"
      by (simp_all add: sanitizeAppointment_def)
    from findOne_key [OF found] f have "a_id a = ident" by simp
    from findOne_replaceBy [OF found this]
    have "findOne (\<lambda>x. a_id x = ident) (appointments (fst (updateAppointment P st staff ident b))) = Some a"
      by (simp add: a(2))
    with a(2) f show "\<exists>a. updateAppointment P st staff ident b
                  = (st\<lparr>appointments := replaceBy a_id a (appointments st)\<rparr>, Inr a)
                \<and> a_status a = s
                \<and> findOne (\<lambda>x. a_id x = ident)
                     (appointments (fst (updateAppointment P st staff ident b))) = Some a"
      by blast
  next
    assume v: "validateAppointment P b"
    assume h: "role staff \<in> {Doctor, Assistant}
           \<and> truthyStr (b_service b) \<and> b_service b \<noteq> Some (a_service a0)
           \<and> serviceUnavailable st (b_service b)"
    then have np: "role staff \<noteq> Patient" by auto
    show "updateAppointment P st staff ident b
             = (st, Inl (BadRequest ''Selected service is not available''))"
      using v found h np
      by (auto simp: updateAppointment_def sanitizeAppointment_def Let_def)
  next
    assume v: "validateAppointment P b"
    assume h: "role staff \<in> {Doctor, Assistant}
           \<and> (b_service b = Some (a_service a0) \<or> \<not> serviceUnavailable st (b_service b))
           \<and> truthyStr (b_date b) \<and> workingHoursError P ''scheduled'' (b_date b) = Some e"
    then have np: "role staff \<noteq> Patient" by auto
    show "updateAppointment P st staff ident b = (st, Inl e)"
      using v found h np
      by (auto simp: updateAppointment_def sanitizeAppointment_def Let_def)
  qed
qed

text \<open>
  On the sample clinic: Alice asks to mark her own scheduled visit completed, with a
  complete body, and is refused; the assistant sends the same body and the visit is
  stored as completed.
\<close>

theorem patient_status_change_forbidden_witness:
  "validateAppointment serverUTC ((bookingAt ''1970-01-03T08:00'')\<lparr>b_status := Some ''completed''\<rparr>)
   \<and> findOne (\<lambda>x. a_id x = ''64d000000000000000000001'') (appointments clinic) = Some aliceVisit
   \<and> role alice = Patient \<and> a_user aliceVisit = actor_id alice
   \<and> a_status aliceVisit = ''scheduled''
   \<and> updateAppointment serverUTC clinic alice ''64d000000000000000000001''
        ((bookingAt ''1970-01-03T08:00'')\<lparr>b_status := Some ''completed''\<rparr>)
       = (clinic, Inl (Forbidden ''Patients cannot change appointment status''))
   \<and> (\<exists>a. updateAppointment serverUTC clinic assistantEve ''64d000000000000000000001''
             ((bookingAt ''1970-01-03T08:00'')\<lparr>b_status := Some ''completed''\<rparr>)
           = (clinic\<lparr>appointments := replaceBy a_id a (appointments clinic)\<rparr>, Inr a)
         \<and> a_status a = ''completed'')"
proof -
  let ?b = "(bookingAt ''1970-01-03T08:00'')\<lparr>b_status := Some ''completed''\<rparr>"
  have v: "validateAppointment serverUTC ?b"
    by (simp add: validateAppointment_def requiredField_def optionalField_def
        appointmentStatuses_def sample_defs)
  have found: "findOne (\<lambda>x. a_id x = ''64d000000000000000000001'') (appointments clinic) = Some aliceVisit"
    by (simp add: findOne_def sample_defs)
  have s: "b_status ?b = Some ''completed''" "''completed'' \<noteq> a_status aliceVisit"
    by (simp_all add: sample_defs)
  have o: "role alice = Patient" "a_user aliceVisit = actor_id alice" "a_status aliceVisit = ''scheduled''"
    by (simp_all add: sample_defs)
  have e: "role assistantEve \<in> {Doctor, Assistant}" "b_service ?b = Some (a_service aliceVisit)"
    by (simp_all add: sample_defs)
  have w: "workingHoursError serverUTC ''scheduled'' (b_date ?b) = None"
    by (simp add: date_defs sample_defs)
  show ?thesis
    using patient_status_change_forbidden [OF found s, of serverUTC alice assistantEve] v found o e w
    by auto
qed

text \<open>
  The claim as the specification words it fails on these requests to the sample clinic.
  A body that carries only the status: Alice is answered 400 with the validation
  errors, not 403, and the assistant sending the same body gets the same answer. A
  complete body with the status and a Thursday date: Alice is answered 403, and the
  assistant sending the same body is answered 400.
\<close>

theorem patient_status_change_counterexample:
  "updateAppointment serverUTC clinic alice ''64d000000000000000000001''
       \<lparr>b_user = None, b_doctor = None, b_date = None, b_service = None,
        b_status = Some ''completed'', b_notes = None, b_id = None, b_createdAt = None\<rparr>
     = (clinic, Inl ValidationErrors)
   \<and> updateAppointment serverUTC clinic assistantEve ''64d000000000000000000001''
       \<lparr>b_user = None, b_doctor = None, b_date = None, b_service = None,
        b_status = Some ''completed'', b_notes = None, b_id = None, b_createdAt = None\<rparr>
     = (clinic, Inl ValidationErrors)
   \<and> updateAppointment serverUTC clinic alice ''64d000000000000000000001''
       \<lparr>b_user = Some ''64b000000000000000000001'', b_doctor = Some ''64b000000000000000000003'',
        b_date = Some ''1970-01-01T10:00'', b_service = Some ''64c000000000000000000001'',
        b_status = Some ''completed'', b_notes = None, b_id = None, b_createdAt = None\<rparr>
     = (clinic, Inl (Forbidden ''Patients cannot change appointment status''))
   \<and> updateAppointment serverUTC clinic assistantEve ''64d000000000000000000001''
       \<lparr>b_user = Some ''64b000000000000000000001'', b_doctor = Some ''64b000000000000000000003'',
        b_date = Some ''1970-01-01T10:00'', b_service = Some ''64c000000000000000000001'',
        b_status = Some ''completed'', b_notes = None, b_id = None, b_createdAt = None\<rparr>
     = (clinic, Inl (BadRequest ''Appointments can only be scheduled from Saturday to Wednesday''))"
  by (simp add: updateAppointment_def validateAppointment_def requiredField_def
      optionalField_def appointmentStatuses_def sanitizeAppointment_def findOne_def
      truthyStr_def date_defs sample_defs Let_def)

text \<open>
  C10. An update by the appointment's owner (or by staff) whose body names a user stores
  that user: whatever update is accepted, the stored appointment's user is the body's,
  and reading the appointment back gives it. The update is accepted whenever the body
  passes validation and the checks of the handler (no status change by a patient,
  service unchanged or available, date within working hours); the forcing of the user
  that creation applies to patients is not applied here.
\<close>

theorem update_transfers_ownership:
  assumes found: "findOne (\<lambda>x. a_id x = ident) (appointments st) = Some a0"
    and auth: "a_user a0 = actor_id act \<or> role act \<in> {Doctor, Assistant}"
    and u: "b_user b = Some u"
  shows
    "(\<forall>st' a. updateAppointment P st act ident b = (st', Inr a) \<longrightarrow>
         a_user a = u \<and> findOne (\<lambda>x. a_id x = ident) (appointments st') = Some a)
     \<and> (validateAppointment P b
        \<and> (role act = Patient \<longrightarrow> b_status b = None \<or> b_status b = Some (a_status a0))
        \<and> (b_service b = Some (a_service a0) \<or> \<not> serviceUnavailable st (b_service b))
        \<and> workingHoursError P ''scheduled'' (b_date b) = None \<longrightarrow>
        (\<exists>a. updateAppointment P st act ident b
                = (st\<lparr>appointments := replaceBy a_id a (appointments st)\<rparr>, Inr a)
              \<and> a_user a = u))"
proof (rule conjI)
  show "\<forall>st' a. updateAppointment P st act ident b = (st', Inr a) \<longrightarrow>
         a_user a = u \<and> findOne (\<lambda>x. a_id x = ident) (appointments st') = Some a"
  proof (intro allI impI)
  fix st' a
  assume r: "updateAppointment P st act ident b = (st', Inr a)"
  from updateAppointment_Inr [OF r] found
  have a: "assignAppointment P a0 (sanitizeAppointment P b) = Some a"
    and st': "st' = st\<lparr>appointments := replaceBy a_id a (appointments st)\<rparr>"
    by auto
  from assignAppointment_fields(1,3) [OF a] u
  have f: "a_id a = a_id a0" "a_user a = u"
    by (simp_all add: sanitizeAppointment_def)
  from findOne_key [OF found] f have "a_id a = ident" by simp
  from findOne_replaceBy [OF found this] st' f
  show "a_user a = u \<and> findOne (\<lambda>x. a_id x = ident) (appointments st') = Some a"
    by simp
  qed
next
  show "validateAppointment P b
        \<and> (role act = Patient \<longrightarrow> b_status b = None \<or> b_status b = Some (a_status a0))
        \<and> (b_service b = Some (a_service a0) \<or> \<not> serviceUnavailable st (b_service b))
        \<and> workingHoursError P ''scheduled'' (b_date b) = None \<longrightarrow>
        (\<exists>a. updateAppointment P st act ident b
                = (st\<lparr>appointments := replaceBy a_id a (appointments st)\<rparr>, Inr a)
              \<and> a_user a = u)"
  proof (rule impI)
  assume h: "validateAppointment P b
        \<and> (role act = Patient \<longrightarrow> b_status b = None \<or> b_status b = Some (a_status a0))
        \<and> (b_service b = Some (a_service a0) \<or> \<not> serviceUnavailable st (b_service b))
        \<and> workingHoursError P ''scheduled'' (b_date b) = None"
  have "\<exists>a. assignAppointment P a0 (sanitizeAppointment P b) = Some a
            \<and> updateAppointment P st act ident b
                = (st\<lparr>appointments := replaceBy a_id a (appointments st)\<rparr>, Inr a)"
  proof (rule updateAppointment_accepted [OF _ found])
    show "validateAppointment P b" using h by simp
    show "role act \<in> {Doctor, Assistant} \<or> a_user a0 = actor_id act"
      using auth by blast
    show "role act = Patient \<longrightarrow> b_status b = None \<or> b_status b = Some (a_status a0)"
      using h by simp
    show "b_service b = Some (a_service a0) \<or> \<not> serviceUnavailable st (b_service b)"
      using h by simp
    show "workingHoursError P ''scheduled'' (b_date b) = None"
      using h by simp
  qed
  then obtain a where a: "assignAppointment P a0 (sanitizeAppointment P b) = Some a"
    "updateAppointment P st act ident b
       = (st\<lparr>appointments := replaceBy a_id a (appointments st)\<rparr>, Inr a)"
    by (elim exE conjE)
  from assignAppointment_fields(3) [OF a(1)] u have "a_user a = u"
    by (simp add: sanitizeAppointment_def)
  with a(2) show "\<exists>a. updateAppointment P st act ident b
                = (st\<lparr>appointments := replaceBy a_id a (appointments st)\<rparr>, Inr a)
              \<and> a_user a = u"
    by blast
  qed
qed

text \<open>
  On the sample clinic: Alice, a patient, updates her own visit with Bob as the user; the
  update is stored and the visit now belongs to Bob.
\<close>

theorem update_transfers_ownership_witness:
  "findOne (\<lambda>x. a_id x = ''64d000000000000000000001'') (appointments clinic) = Some aliceVisit
   \<and> a_user aliceVisit = actor_id alice \<and> role alice = Patient
   \<and> actor_id bob \<noteq> a_user aliceVisit
   \<and> validateAppointment serverUTC ((bookingAt ''1970-01-07T17:59'')\<lparr>b_user := Some (actor_id bob)\<rparr>)
   \<and> (\<exists>a. updateAppointment serverUTC clinic alice ''64d000000000000000000001''
             ((bookingAt ''1970-01-07T17:59'')\<lparr>b_user := Some (actor_id bob)\<rparr>)
           = (clinic\<lparr>appointments := replaceBy a_id a (appointments clinic)\<rparr>, Inr a)
         \<and> a_user a = actor_id bob)"
proof -
  let ?b = "(bookingAt ''1970-01-07T17:59'')\<lparr>b_user := Some (actor_id bob)\<rparr>"
  have found: "findOne (\<lambda>x. a_id x = ''64d000000000000000000001'') (appointments clinic) = Some aliceVisit"
    by (simp add: findOne_def sample_defs)
  have o: "a_user aliceVisit = actor_id alice" "role alice = Patient" "actor_id bob \<noteq> a_user aliceVisit"
    by (simp_all add: sample_defs)
  have u: "b_user ?b = Some (actor_id bob)"
    by simp
  have v: "validateAppointment serverUTC ?b"
    by (simp add: validateAppointment_def requiredField_def optionalField_def sample_defs)
  have c: "b_status ?b = None" "b_service ?b = Some (a_service aliceVisit)"
    by (simp_all add: sample_defs)
  have w: "workingHoursError serverUTC ''scheduled'' (b_date ?b) = None"
    by (simp add: date_defs sample_defs)
  show ?thesis
    using update_transfers_ownership [of "''64d000000000000000000001''" clinic aliceVisit alice ?b "actor_id bob" serverUTC]
      found o u v c w
    by auto
qed




section \<open>Creation by a patient\<close>

lemma createAppointment_Inr:
  assumes "createAppointment P now newId st act b = (st', Inr a)"
  shows "validateAppointment P b
         \<and> newAppointment P now newId
              (if role act = Patient
               then (sanitizeAppointment P b)\<lparr>b_user := Some (actor_id act)\<rparr>
               else sanitizeAppointment P b) = Some a
         \<and> st' = st\<lparr>appointments := appointments st @ [a]\<rparr>"
  using assms
  by (simp add: createAppointment_def Let_def split: if_splits option.splits)

lemma newAppointment_user:
  "newAppointment P now newId b = Some a \<Longrightarrow> b_user b = Some (a_user a)"
  by (auto simp: newAppointment_def split: option.splits)

lemma createPayment_Inr:
  assumes "createPayment P now newId st act b = (st', Inr p)"
  shows "validatePayment P b
         \<and> newPayment P now newId
              (if role act = Patient
               then (sanitizePayment P b)\<lparr>pb_user := Some (actor_id act)\<rparr>
               else sanitizePayment P b) = Some p
         \<and> st' = st\<lparr>payments := payments st @ [p]\<rparr>"
  using assms
  by (simp add: createPayment_def Let_def split: if_splits option.splits)

lemma newPayment_user:
  "newPayment P now newId b = Some p \<Longrightarrow> pb_user b = Some (p_user p)"
  by (auto simp: newPayment_def split: option.splits if_splits)

text \<open>
  C4. When the caller is a patient, every appointment and every payment that a creation
  stores has the caller's identifier as its user, whatever user the body names; the
  record is appended to its collection. Such creations do go through: a validated
  payment is always stored, and a validated appointment is stored when its service is
  available and its date is within working hours.
\<close>

theorem patient_create_forces_user:
  assumes p: "role act = Patient"
  shows
    "(\<forall>st' a. createAppointment P now newId st act b = (st', Inr a) \<longrightarrow>
         a_user a = actor_id act \<and> st' = st\<lparr>appointments := appointments st @ [a]\<rparr>)
     \<and> (\<forall>st' x. createPayment P now newId st act pb = (st', Inr x) \<longrightarrow>
         p_user x = actor_id act \<and> st' = st\<lparr>payments := payments st @ [x]\<rparr>)
     \<and> (validateAppointment P b \<and> \<not> serviceUnavailable st (b_service b)
        \<and> workingHoursError P ''booked'' (b_date b) = None \<longrightarrow>
          (\<exists>a. createAppointment P now newId st act b
                  = (st\<lparr>appointments := appointments st @ [a]\<rparr>, Inr a)
                \<and> a_user a = actor_id act))
     \<and> (validatePayment P pb \<longrightarrow>
          (\<exists>x. createPayment P now newId st act pb
                  = (st\<lparr>payments := payments st @ [x]\<rparr>, Inr x)
                \<and> p_user x = actor_id act))"
proof -
  have 1: "\<forall>st' a. createAppointment P now newId st act b = (st', Inr a) \<longrightarrow>
         a_user a = actor_id act \<and> st' = st\<lparr>appointments := appointments st @ [a]\<rparr>"
  proof (intro allI impI)
    fix st' a
    assume r: "createAppointment P now newId st act b = (st', Inr a)"
    from createAppointment_Inr [OF r] p
    have n: "newAppointment P now newId ((sanitizeAppointment P b)\<lparr>b_user := Some (actor_id act)\<rparr>) = Some a"
      and s: "st' = st\<lparr>appointments := appointments st @ [a]\<rparr>"
      by simp_all
    from newAppointment_user [OF n] s
    show "a_user a = actor_id act \<and> st' = st\<lparr>appointments := appointments st @ [a]\<rparr>"
      by simp
  qed
  have 2: "\<forall>st' x. createPayment P now newId st act pb = (st', Inr x) \<longrightarrow>
         p_user x = actor_id act \<and> st' = st\<lparr>payments := payments st @ [x]\<rparr>"
  proof (intro allI impI)
    fix st' x
    assume r: "createPayment P now newId st act pb = (st', Inr x)"
    from createPayment_Inr [OF r] p
    have n: "newPayment P now newId ((sanitizePayment P pb)\<lparr>pb_user := Some (actor_id act)\<rparr>) = Some x"
      and s: "st' = st\<lparr>payments := payments st @ [x]\<rparr>"
      by simp_all
    from newPayment_user [OF n] s
    show "p_user x = actor_id act \<and> st' = st\<lparr>payments := payments st @ [x]\<rparr>"
      by simp
  qed
  have 3: "validateAppointment P b \<and> \<not> serviceUnavailable st (b_service b)
        \<and> workingHoursError P ''booked'' (b_date b) = None \<longrightarrow>
          (\<exists>a. createAppointment P now newId st act b
                  = (st\<lparr>appointments := appointments st @ [a]\<rparr>, Inr a)
                \<and> a_user a = actor_id act)"
  proof (rule impI)
    assume h: "validateAppointment P b \<and> \<not> serviceUnavailable st (b_service b)
        \<and> workingHoursError P ''booked'' (b_date b) = None"
    then obtain u dr d s where
      f: "b_user b = Some u" "b_doctor b = Some dr" "b_date b = Some d" "b_service b = Some s"
      using validateAppointment_fields by blast
    from h have "workingHoursError P ''booked'' (b_date b) = None"
      by simp
    from workingHoursError_None_date [OF this] f(3) obtain t where t: "newDate P d = Some t"
      by auto
    show "\<exists>a. createAppointment P now newId st act b
                  = (st\<lparr>appointments := appointments st @ [a]\<rparr>, Inr a)
                \<and> a_user a = actor_id act"
      using h p f t
      by (simp add: createAppointment_def sanitizeAppointment_def newAppointment_def
          dateOf_def Let_def)
  qed
  have 4: "validatePayment P pb \<longrightarrow>
          (\<exists>x. createPayment P now newId st act pb
                  = (st\<lparr>payments := payments st @ [x]\<rparr>, Inr x)
                \<and> p_user x = actor_id act)"
    using p
    by (auto simp: createPayment_def validatePayment_def requiredField_def sanitizePayment_def
        newPayment_def Let_def split: option.splits)
  from 1 2 3 4 show ?thesis by (intro conjI)
qed

text \<open>
  On the sample clinic: Alice creates an appointment and a payment whose bodies name Bob
  as the user; both records are stored with Alice as the user.
\<close>

theorem patient_create_forces_user_witness:
  "role alice = Patient \<and> actor_id alice \<noteq> actor_id bob
   \<and> b_user ((bookingAt ''1970-01-03T08:00'')\<lparr>b_user := Some (actor_id bob)\<rparr>) = Some (actor_id bob)
   \<and> (\<exists>a. createAppointment serverUTC 7 ''64d000000000000000000002'' clinic alice
             ((bookingAt ''1970-01-03T08:00'')\<lparr>b_user := Some (actor_id bob)\<rparr>)
           = (clinic\<lparr>appointments := appointments clinic @ [a]\<rparr>, Inr a)
         \<and> a_user a = actor_id alice)
   \<and> (\<exists>x. createPayment serverUTC 7 ''64d000000000000000000002'' clinic alice
             \<lparr>pb_user = Some (actor_id bob), pb_appointment = Some ''64d000000000000000000001'',
              pb_amount = Some 40, pb_status = None, pb_paymentMethod = Some ''cash'',
              pb_id = None, pb_createdAt = None\<rparr>
           = (clinic\<lparr>payments := payments clinic @ [x]\<rparr>, Inr x)
         \<and> p_user x = actor_id alice)"
proof -
  let ?b = "(bookingAt ''1970-01-03T08:00'')\<lparr>b_user := Some (actor_id bob)\<rparr>"
  let ?pb = "\<lparr>pb_user = Some (actor_id bob), pb_appointment = Some ''64d000000000000000000001'',
              pb_amount = Some 40, pb_status = None, pb_paymentMethod = Some ''cash'',
              pb_id = None, pb_createdAt = None\<rparr>"
  have p: "role alice = Patient" "actor_id alice \<noteq> actor_id bob"
    by (simp_all add: sample_defs)
  have v: "validateAppointment serverUTC ?b"
    by (simp add: validateAppointment_def requiredField_def optionalField_def sample_defs)
  have s: "\<not> serviceUnavailable clinic (b_service ?b)"
    by (simp add: serviceUnavailable_def findOne_def sample_defs)
  have w: "workingHoursError serverUTC ''booked'' (b_date ?b) = None"
    by (simp add: date_defs sample_defs)
  have vp: "validatePayment serverUTC ?pb"
    by (simp add: validatePayment_def requiredField_def optionalField_def sample_defs)
  show ?thesis
    using patient_create_forces_user [OF p(1), of serverUTC 7 "''64d000000000000000000002''" clinic ?b ?pb]
      p v s w vp
    by simp
qed

section \<open>Service names\<close>

lemma findOne_None_iff:
  "(findOne f xs = None) = (\<not> (\<exists>x. x \<in> set xs \<and> f x))"
  by (simp add: findOne_def find_None_iff)

lemma name_held:
  "n \<in> s_name ` set (services st) \<Longrightarrow> findOne (\<lambda>s. s_name s = n) (services st) \<noteq> None"
  by (auto simp: findOne_None_iff)

text \<open>
  C6. Let the body's name be the name of a service in the store. The creation handler
  then stores nothing and answers 400: with ``Service with this name already exists''
  when the body also has its duration and price (and the name is not empty), with the
  missing-fields message otherwise. The edit handler, on an existing service whose own
  name is another one, stores nothing either and answers 400 ``Service with this name
  already exists''. (The specification's Conflict is this 400 response.)
\<close>

theorem duplicate_service_name_conflict:
  assumes taken: "n \<in> s_name ` set (services st)"
    and name: "sb_name b = Some n"
  shows
    "fst (createService S newId st act b) = st
     \<and> (\<exists>m. snd (createService S newId st act b) = Inl (BadRequest m))
     \<and> (n \<noteq> [] \<and> truthyNum (sb_duration b) \<and> truthyNum (sb_price b) \<longrightarrow>
          createService S newId st act b
            = (st, Inl (BadRequest ''Service with this name already exists'')))
     \<and> (findOne (\<lambda>s. s_id s = ident) (services st) = Some s0 \<and> n \<noteq> [] \<and> n \<noteq> s_name s0 \<longrightarrow>
          editService S st ident b
            = (st, Inl (BadRequest ''Service with this name already exists'')))"
proof -
  from name_held [OF taken] obtain e where e: "findOne (\<lambda>s. s_name s = n) (services st) = Some e"
    by auto
  have c: "createService S newId st act b
             = (st, Inl (BadRequest (if n \<noteq> [] \<and> truthyNum (sb_duration b) \<and> truthyNum (sb_price b)
                                     then ''Service with this name already exists''
                                     else ''Please provide name, duration, and price'')))"
    using name e
    by (auto simp: createService_def truthyStr_def truthyNum_def split: option.splits)
  have r: "findOne (\<lambda>s. s_id s = ident) (services st) = Some s0 \<and> n \<noteq> [] \<and> n \<noteq> s_name s0 \<longrightarrow>
          editService S st ident b
            = (st, Inl (BadRequest ''Service with this name already exists''))"
    using name e by (simp add: editService_def nameTaken_def)
  from c r show ?thesis by simp
qed

text \<open>
  On the sample clinic, which has a service named Cleaning: creating another Cleaning is
  refused, and so is renaming the whitening to Cleaning.
\<close>

theorem duplicate_service_name_conflict_witness:
  "''Cleaning'' \<in> s_name ` set (services clinic)
   \<and> createService anySchema ''64c000000000000000000003'' clinic drDana
        \<lparr>sb_name = Some ''Cleaning'', sb_description = None, sb_duration = Some 20,
         sb_price = Some 35, sb_isActive = None\<rparr>
       = (clinic, Inl (BadRequest ''Service with this name already exists''))
   \<and> findOne (\<lambda>s. s_id s = ''64c000000000000000000002'') (services clinic) = Some whitening
   \<and> ''Cleaning'' \<noteq> s_name whitening
   \<and> editService anySchema clinic ''64c000000000000000000002''
        \<lparr>sb_name = Some ''Cleaning'', sb_description = None, sb_duration = Some 20,
         sb_price = Some 35, sb_isActive = None\<rparr>
       = (clinic, Inl (BadRequest ''Service with this name already exists''))"
proof -
  let ?b = "\<lparr>sb_name = Some ''Cleaning'', sb_description = None, sb_duration = Some 20,
         sb_price = Some 35, sb_isActive = None\<rparr>"
  have t: "''Cleaning'' \<in> s_name ` set (services clinic)"
    by (simp add: sample_defs)
  have n: "sb_name ?b = Some ''Cleaning''"
    by simp
  have f: "findOne (\<lambda>s. s_id s = ''64c000000000000000000002'') (services clinic) = Some whitening"
    by (simp add: findOne_def sample_defs)
  have d: "''Cleaning'' \<noteq> s_name whitening"
    by (simp add: sample_defs)
  have y: "truthyNum (sb_duration ?b)" "truthyNum (sb_price ?b)"
    by (simp_all add: truthyNum_def)
  show ?thesis
    using duplicate_service_name_conflict [OF t n, of anySchema "''64c000000000000000000003''" drDana
        "''64c000000000000000000002''" whitening] t f d y
    by simp
qed

section \<open>Patient information\<close>

text \<open>
  C7. Let the caller be allowed on the target patient (the patient themself, or staff).
  The strict create, when a record of that patient exists, answers 400 ``Patient
  information already exists'' and leaves the store as it was. The update, when no
  record of the target exists and the body's gender and blood type are values of the
  schema's enums, makes a record for the target with the new identifier, writes the
  body's fields to it and appends it to the collection.
\<close>

theorem patient_info_create_vs_upsert:
  "(findOne (\<lambda>p. pi_patientId p = target) (patientInfos st) = Some existing
      \<and> (ib_patientId body = Some target \<and> target \<noteq> []
          \<or> \<not> truthyStr (ib_patientId body) \<and> target = actor_id act)
      \<and> (actor_id act = target \<or> role act \<in> {Doctor, Assistant}) \<longrightarrow>
        createPatientInfo now newId st act body
          = (st, Inl (BadRequest ''Patient information already exists'')))
   \<and> (findOne (\<lambda>p. pi_patientId p = targetOf act patientId) (patientInfos st) = None
      \<and> (actor_id act = targetOf act patientId \<or> role act \<in> {Doctor, Assistant})
      \<and> optionalField (\<lambda>g. g \<in> set genders) (ib_gender body)
      \<and> optionalField (\<lambda>t. t \<in> set bloodTypes) (ib_bloodType body) \<longrightarrow>
        (\<exists>p. updatePatientInfo now newId st act patientId body
                = (st\<lparr>patientInfos := patientInfos st @ [p]\<rparr>, Inr p)
              \<and> pi_id p = newId \<and> pi_patientId p = targetOf act patientId
              \<and> pi_age p = ib_age body \<and> pi_gender p = ib_gender body
              \<and> pi_bloodType p = ib_bloodType body))"
proof (rule conjI)
  show "findOne (\<lambda>p. pi_patientId p = target) (patientInfos st) = Some existing
      \<and> (ib_patientId body = Some target \<and> target \<noteq> []
          \<or> \<not> truthyStr (ib_patientId body) \<and> target = actor_id act)
      \<and> (actor_id act = target \<or> role act \<in> {Doctor, Assistant}) \<longrightarrow>
        createPatientInfo now newId st act body
          = (st, Inl (BadRequest ''Patient information already exists''))"
    by (auto simp: createPatientInfo_def truthyStr_def Let_def split: option.splits)
next
  show "findOne (\<lambda>p. pi_patientId p = targetOf act patientId) (patientInfos st) = None
      \<and> (actor_id act = targetOf act patientId \<or> role act \<in> {Doctor, Assistant})
      \<and> optionalField (\<lambda>g. g \<in> set genders) (ib_gender body)
      \<and> optionalField (\<lambda>t. t \<in> set bloodTypes) (ib_bloodType body) \<longrightarrow>
        (\<exists>p. updatePatientInfo now newId st act patientId body
                = (st\<lparr>patientInfos := patientInfos st @ [p]\<rparr>, Inr p)
              \<and> pi_id p = newId \<and> pi_patientId p = targetOf act patientId
              \<and> pi_age p = ib_age body \<and> pi_gender p = ib_gender body
              \<and> pi_bloodType p = ib_bloodType body)"
    by (auto simp: updatePatientInfo_def updateFields_def blankPatientInfo_def orKeep_def
        patientInfoValid_def optionalField_def Let_def split: option.splits)
qed

text \<open>
  On the sample clinic: Alice has a record and her create is refused; Bob has none and
  his update of \<^verbatim>\<open>me\<close> creates one.
\<close>

theorem patient_info_create_vs_upsert_witness:
  "findOne (\<lambda>p. pi_patientId p = actor_id alice) (patientInfos clinic) = Some aliceInfo
   \<and> createPatientInfo 9 ''64a000000000000000000002'' clinic alice
        \<lparr>ib_patientId = None, ib_age = Some 31, ib_gender = None, ib_address = None,
         ib_bloodType = None, ib_medicalHistory = None, ib_allergies = None,
         ib_medications = None, ib_emergencyContact = None, ib_lastVisit = None,
         ib_updateLastVisit = False\<rparr>
       = (clinic, Inl (BadRequest ''Patient information already exists''))
   \<and> findOne (\<lambda>p. pi_patientId p = targetOf bob ''me'') (patientInfos clinic) = None
   \<and> targetOf bob ''me'' = actor_id bob
   \<and> (\<exists>p. updatePatientInfo 9 ''64a000000000000000000002'' clinic bob ''me''
             \<lparr>ib_patientId = None, ib_age = Some 31, ib_gender = None, ib_address = None,
              ib_bloodType = None, ib_medicalHistory = None, ib_allergies = None,
              ib_medications = None, ib_emergencyContact = None, ib_lastVisit = None,
              ib_updateLastVisit = False\<rparr>
           = (clinic\<lparr>patientInfos := patientInfos clinic @ [p]\<rparr>, Inr p)
         \<and> pi_id p = ''64a000000000000000000002'' \<and> pi_patientId p = actor_id bob
         \<and> pi_age p = Some 31)"
proof -
  let ?b = "\<lparr>ib_patientId = None, ib_age = Some 31, ib_gender = None, ib_address = None,
         ib_bloodType = None, ib_medicalHistory = None, ib_allergies = None,
         ib_medications = None, ib_emergencyContact = None, ib_lastVisit = None,
         ib_updateLastVisit = False\<rparr>"
  have a: "findOne (\<lambda>p. pi_patientId p = actor_id alice) (patientInfos clinic) = Some aliceInfo"
    by (simp add: findOne_def sample_defs)
  have t: "targetOf bob ''me'' = actor_id bob"
    by (simp add: targetOf_def)
  have n: "findOne (\<lambda>p. pi_patientId p = targetOf bob ''me'') (patientInfos clinic) = None"
    by (simp add: findOne_def targetOf_def sample_defs)
  have y: "\<not> truthyStr (ib_patientId ?b)" "optionalField (\<lambda>g. g \<in> set genders) (ib_gender ?b)"
    "optionalField (\<lambda>t. t \<in> set bloodTypes) (ib_bloodType ?b)"
    by (simp_all add: truthyStr_def optionalField_def)
  from patient_info_create_vs_upsert
         [of "actor_id alice" clinic aliceInfo ?b alice 9 "''64a000000000000000000002''" "''me''"]
       a y
  have 1: "createPatientInfo 9 ''64a000000000000000000002'' clinic alice ?b
             = (clinic, Inl (BadRequest ''Patient information already exists''))"
    by simp
  from patient_info_create_vs_upsert
         [of "actor_id bob" clinic aliceInfo ?b bob 9 "''64a000000000000000000002''" "''me''"]
       n t y
  have 2: "\<exists>p. updatePatientInfo 9 ''64a000000000000000000002'' clinic bob ''me'' ?b
           = (clinic\<lparr>patientInfos := patientInfos clinic @ [p]\<rparr>, Inr p)
         \<and> pi_id p = ''64a000000000000000000002'' \<and> pi_patientId p = actor_id bob
         \<and> pi_age p = Some 31"
    by auto
  from a 1 n t 2 show ?thesis by simp
qed

lemma updatePatientInfo_Inr:
  assumes "updatePatientInfo now newId st act patientId body = (st', Inr p)"
  shows "p = (let found = findOne (\<lambda>q. pi_patientId q = targetOf act patientId) (patientInfos st);
                  p0 = (case found of
                          None \<Rightarrow> blankPatientInfo now newId (targetOf act patientId)
                        | Some q \<Rightarrow> q);
                  p1 = updateFields p0 body
              in (if ib_updateLastVisit body then p1\<lparr>pi_lastVisit := Some now\<rparr> else p1)
                   \<lparr>pi_updatedAt := now\<rparr>)"
  using assms
  by (auto simp: updatePatientInfo_def Let_def split: if_splits option.splits)

text \<open>
  C8. The handler of the patient-information update never reads a lastVisit of the
  body: two requests that differ in it only have the same outcome. The record an update
  stores has lastVisit equal to the current time when the request carries the
  updateLastVisit flag, and equal to the previous value otherwise (null for a record the
  update has just created). A refused update leaves the store as it was.
\<close>

theorem last_visit_only_by_flag:
  "updatePatientInfo now newId st act patientId (body\<lparr>ib_lastVisit := v\<rparr>)
     = updatePatientInfo now newId st act patientId body
   \<and> (\<forall>st' p. updatePatientInfo now newId st act patientId body = (st', Inr p) \<longrightarrow>
        pi_lastVisit p =
          (if ib_updateLastVisit body then Some now
           else (case findOne (\<lambda>q. pi_patientId q = targetOf act patientId) (patientInfos st) of
                   None \<Rightarrow> None
                 | Some old \<Rightarrow> pi_lastVisit old)))
   \<and> (\<forall>e. snd (updatePatientInfo now newId st act patientId body) = Inl e \<longrightarrow>
        fst (updatePatientInfo now newId st act patientId body) = st)"
proof (intro conjI allI impI)
  show "updatePatientInfo now newId st act patientId (body\<lparr>ib_lastVisit := v\<rparr>)
     = updatePatientInfo now newId st act patientId body"
    by (simp add: updatePatientInfo_def updateFields_def Let_def)
next
  fix st' p
  assume r: "updatePatientInfo now newId st act patientId body = (st', Inr p)"
  show "pi_lastVisit p =
          (if ib_updateLastVisit body then Some now
           else (case findOne (\<lambda>q. pi_patientId q = targetOf act patientId) (patientInfos st) of
                   None \<Rightarrow> None
                 | Some old \<Rightarrow> pi_lastVisit old))"
    unfolding updatePatientInfo_Inr [OF r]
    by (simp add: Let_def updateFields_def blankPatientInfo_def split: option.splits)
next
  fix e
  assume "snd (updatePatientInfo now newId st act patientId body) = Inl e"
  then show "fst (updatePatientInfo now newId st act patientId body) = st"
    by (auto simp: updatePatientInfo_def Let_def split: if_splits option.splits)
qed

text \<open>
  On the sample clinic, where Alice's last visit is 5: an update that carries the
  literal lastVisit 99 and no flag leaves it at 5; with the flag, at time 9, it becomes 9.
\<close>

theorem last_visit_only_by_flag_witness:
  "pi_lastVisit aliceInfo = Some 5
   \<and> updatePatientInfo 9 ''64a000000000000000000002'' clinic alice ''me''
        \<lparr>ib_patientId = None, ib_age = None, ib_gender = None, ib_address = None,
         ib_bloodType = None, ib_medicalHistory = None, ib_allergies = None,
         ib_medications = None, ib_emergencyContact = None, ib_lastVisit = Some 99,
         ib_updateLastVisit = False\<rparr>
       = (clinic\<lparr>patientInfos := [aliceInfo\<lparr>pi_updatedAt := 9\<rparr>]\<rparr>,
          Inr (aliceInfo\<lparr>pi_updatedAt := 9\<rparr>))
   \<and> pi_lastVisit (aliceInfo\<lparr>pi_updatedAt := 9\<rparr>) = Some 5
   \<and> updatePatientInfo 9 ''64a000000000000000000002'' clinic alice ''me''
        \<lparr>ib_patientId = None, ib_age = None, ib_gender = None, ib_address = None,
         ib_bloodType = None, ib_medicalHistory = None, ib_allergies = None,
         ib_medications = None, ib_emergencyContact = None, ib_lastVisit = Some 99,
         ib_updateLastVisit = True\<rparr>
       = (clinic\<lparr>patientInfos := [aliceInfo\<lparr>pi_lastVisit := Some 9, pi_updatedAt := 9\<rparr>]\<rparr>,
          Inr (aliceInfo\<lparr>pi_lastVisit := Some 9, pi_updatedAt := 9\<rparr>))"
proof -
  let ?b = "\<lambda>v f. \<lparr>ib_patientId = None, ib_age = None, ib_gender = None, ib_address = None,
         ib_bloodType = None, ib_medicalHistory = None, ib_allergies = None,
         ib_medications = None, ib_emergencyContact = None, ib_lastVisit = v,
         ib_updateLastVisit = f\<rparr>"
  have 0: "updatePatientInfo 9 ''64a000000000000000000002'' clinic alice ''me'' (?b None False)
       = (clinic\<lparr>patientInfos := [aliceInfo\<lparr>pi_updatedAt := 9\<rparr>]\<rparr>,
          Inr (aliceInfo\<lparr>pi_updatedAt := 9\<rparr>))"
    by (simp add: updatePatientInfo_def targetOf_def findOne_def updateFields_def orKeep_def
        patientInfoValid_def optionalField_def genders_def bloodTypes_def replaceBy_def
        sample_defs Let_def)
  have 1: "updatePatientInfo 9 ''64a000000000000000000002'' clinic alice ''me'' (?b None True)
       = (clinic\<lparr>patientInfos := [aliceInfo\<lparr>pi_lastVisit := Some 9, pi_updatedAt := 9\<rparr>]\<rparr>,
          Inr (aliceInfo\<lparr>pi_lastVisit := Some 9, pi_updatedAt := 9\<rparr>))"
    by (simp add: updatePatientInfo_def targetOf_def findOne_def updateFields_def orKeep_def
        patientInfoValid_def optionalField_def genders_def bloodTypes_def replaceBy_def
        sample_defs Let_def)
  have l: "pi_lastVisit aliceInfo = Some 5"
    by (simp add: aliceInfo_def)
  from last_visit_only_by_flag
         [of 9 "''64a000000000000000000002''" clinic alice "''me''" "Some 99" "?b None False"]
       last_visit_only_by_flag
         [of 9 "''64a000000000000000000002''" clinic alice "''me''" "Some 99" "?b None True"]
       0 1 l
  show ?thesis by simp
qed

section \<open>Revenue\<close>









section \<open>What staff may do\<close>

text \<open>
  The list of roles in the check of \<^verbatim>\<open>GET /api/payments/user/:userId\<close> holds doctor
  only, so the assistant of the sample clinic is refused Bob's payments while the doctor
  gets them.
\<close>

lemma payments_of_user_examples:
  "listPaymentsForUser clinic assistantEve (actor_id bob)
     = Inl (Forbidden ''Not authorized to view these payments'')"
  "listPaymentsForUser clinic drDana (actor_id bob) = Inr [payB]"
  by (simp_all add: listPaymentsForUser_def sample_defs)

text \<open>
  C2, as the code has it. For a caller whose role is doctor or assistant, the access
  checks written in the handlers never answer 403, whoever owns the resource, for:
  reading one appointment, listing the appointments (all of them, or a user's), creating
  and updating an appointment, creating and reading a payment, listing a user's
  reminders, deleting a reminder, and reading, creating and updating a patient's
  information; a doctor is also given any user's payments. Two operations are refused
  with 403 to every caller who is not the resource's user, staff included: cancelling an
  appointment and marking a reminder as read.
\<close>

theorem staff_access:
  assumes staff: "role act \<in> {Doctor, Assistant}"
  shows
    "(\<forall>m. getAppointment st act i \<noteq> Inl (Forbidden m))
     \<and> listAppointments st act = appointments st
     \<and> listAppointmentsForUser st act u = Inr (filter (\<lambda>a. a_user a = u) (appointments st))
     \<and> (\<forall>m. snd (createAppointment P now newId st act b) \<noteq> Inl (Forbidden m))
     \<and> (\<forall>m. snd (updateAppointment P st act i b) \<noteq> Inl (Forbidden m))
     \<and> (\<forall>m. snd (createPayment P now newId st act pb) \<noteq> Inl (Forbidden m))
     \<and> (\<forall>m. getPayment st act i \<noteq> Inl (Forbidden m))
     \<and> listRemindersForUser st act u = Inr (filter (\<lambda>r. r_user r = u) (reminders st))
     \<and> (\<forall>m. snd (deleteReminder st act i) \<noteq> Inl (Forbidden m))
     \<and> (\<forall>m. getPatientInfo st act pid \<noteq> Inl (Forbidden m))
     \<and> (\<forall>m. snd (createPatientInfo now newId st act ib) \<noteq> Inl (Forbidden m))
     \<and> (\<forall>m. snd (updatePatientInfo now newId st act pid ib) \<noteq> Inl (Forbidden m))
     \<and> (role act = Doctor \<longrightarrow>
          listPaymentsForUser st act u = Inr (filter (\<lambda>p. p_user p = u) (payments st)))
     \<and> (findOne (\<lambda>a. a_id a = i) (appointments st) = Some a0 \<and> a_user a0 \<noteq> actor_id act \<longrightarrow>
          cancelAppointment st act i
            = (st, Inl (Forbidden ''Only the patient who booked the appointment can cancel it'')))
     \<and> (findOne (\<lambda>r. r_id r = i) (reminders st) = Some r0 \<and> r_user r0 \<noteq> actor_id act \<longrightarrow>
          markReminderRead st act i
            = (st, Inl (Forbidden ''Not authorized to update this reminder'')))"
proof -
  from staff have np: "role act \<noteq> Patient" by auto
  have 1: "\<forall>m. getAppointment st act i \<noteq> Inl (Forbidden m)"
    using np by (simp add: getAppointment_def split: option.splits)
  have 2: "listAppointments st act = appointments st"
    using np by (simp add: listAppointments_def)
  have 3: "listAppointmentsForUser st act u = Inr (filter (\<lambda>a. a_user a = u) (appointments st))"
    using staff by (simp add: listAppointmentsForUser_def)
  have 4: "\<forall>m. snd (createAppointment P now newId st act b) \<noteq> Inl (Forbidden m)"
    by (auto simp: createAppointment_def workingHoursError_def Let_def
        split: option.splits if_splits)
  have 5: "\<forall>m. snd (updateAppointment P st act i b) \<noteq> Inl (Forbidden m)"
    using staff np
    by (auto simp: updateAppointment_def workingHoursError_def Let_def
        split: option.splits if_splits)
  have 6: "\<forall>m. snd (createPayment P now newId st act pb) \<noteq> Inl (Forbidden m)"
    by (simp add: createPayment_def Let_def split: option.splits)
  have 7: "\<forall>m. getPayment st act i \<noteq> Inl (Forbidden m)"
    using staff by (simp add: getPayment_def split: option.splits)
  have 8: "listRemindersForUser st act u = Inr (filter (\<lambda>r. r_user r = u) (reminders st))"
    using staff by (simp add: listRemindersForUser_def)
  have 9: "\<forall>m. snd (deleteReminder st act i) \<noteq> Inl (Forbidden m)"
    using staff by (simp add: deleteReminder_def split: option.splits)
  have 10: "\<forall>m. getPatientInfo st act pid \<noteq> Inl (Forbidden m)"
    using staff by (simp add: getPatientInfo_def Let_def split: option.splits)
  have 11: "\<forall>m. snd (createPatientInfo now newId st act ib) \<noteq> Inl (Forbidden m)"
    using staff by (simp add: createPatientInfo_def Let_def split: option.splits)
  have 12: "\<forall>m. snd (updatePatientInfo now newId st act pid ib) \<noteq> Inl (Forbidden m)"
    using staff by (simp add: updatePatientInfo_def Let_def split: option.splits)
  have 13: "role act = Doctor \<longrightarrow>
          listPaymentsForUser st act u = Inr (filter (\<lambda>p. p_user p = u) (payments st))"
    by (simp add: listPaymentsForUser_def)
  have 14: "findOne (\<lambda>a. a_id a = i) (appointments st) = Some a0 \<and> a_user a0 \<noteq> actor_id act \<longrightarrow>
          cancelAppointment st act i
            = (st, Inl (Forbidden ''Only the patient who booked the appointment can cancel it''))"
    by (simp add: cancelAppointment_def)
  have 15: "findOne (\<lambda>r. r_id r = i) (reminders st) = Some r0 \<and> r_user r0 \<noteq> actor_id act \<longrightarrow>
          markReminderRead st act i
            = (st, Inl (Forbidden ''Not authorized to update this reminder''))"
    by (simp add: markReminderRead_def)
  from 1 2 3 4 5 6 7 8 9 10 11 12 13 14 15 show ?thesis
    by (intro conjI)
qed

text \<open>
  On the sample clinic: the assistant reads and lists Alice's appointments, reminders
  and patient information and deletes her reminder, and is refused the cancellation of
  her visit.
\<close>

theorem staff_access_witness:
  "role assistantEve \<in> {Doctor, Assistant}
   \<and> getAppointment clinic assistantEve ''64d000000000000000000001'' = Inr aliceVisit
   \<and> listAppointments clinic assistantEve = [aliceVisit]
   \<and> listAppointmentsForUser clinic assistantEve (actor_id alice) = Inr [aliceVisit]
   \<and> listRemindersForUser clinic assistantEve (actor_id alice) = Inr [aliceReminder]
   \<and> deleteReminder clinic assistantEve ''64f000000000000000000001''
       = (clinic\<lparr>reminders := []\<rparr>, Inr ''Reminder deleted successfully'')
   \<and> getPatientInfo clinic assistantEve (actor_id alice) = Inr aliceInfo
   \<and> a_user aliceVisit \<noteq> actor_id assistantEve
   \<and> cancelAppointment clinic assistantEve ''64d000000000000000000001''
       = (clinic, Inl (Forbidden ''Only the patient who booked the appointment can cancel it''))"
proof -
  have s: "role assistantEve \<in> {Doctor, Assistant}"
    by (simp add: assistantEve_def)
  have f: "findOne (\<lambda>a. a_id a = ''64d000000000000000000001'') (appointments clinic) = Some aliceVisit"
    "a_user aliceVisit \<noteq> actor_id assistantEve"
    by (simp_all add: findOne_def sample_defs)
  have g: "getAppointment clinic assistantEve ''64d000000000000000000001'' = Inr aliceVisit"
    "deleteReminder clinic assistantEve ''64f000000000000000000001''
       = (clinic\<lparr>reminders := []\<rparr>, Inr ''Reminder deleted successfully'')"
    "getPatientInfo clinic assistantEve (actor_id alice) = Inr aliceInfo"
    by (simp_all add: getAppointment_def deleteReminder_def getPatientInfo_def targetOf_def
        findOne_def removeBy_def sample_defs)
  have l: "filter (\<lambda>a. a_user a = actor_id alice) (appointments clinic) = [aliceVisit]"
    "filter (\<lambda>r. r_user r = actor_id alice) (reminders clinic) = [aliceReminder]"
    "appointments clinic = [aliceVisit]"
    by (simp_all add: sample_defs)
  from staff_access [OF s, of clinic "''64d000000000000000000001''" "actor_id alice", where ?a0.0 = aliceVisit]
    s f g l
  show ?thesis by simp
qed

text \<open>
  The claim as the specification words it fails on this request: Dr Dana, a doctor, asks
  to mark Alice's reminder as read (not a cancellation) and is answered 403.
\<close>

theorem staff_access_counterexample:
  "role drDana = Doctor
   \<and> markReminderRead clinic drDana ''64f000000000000000000001''
       = (clinic, Inl (Forbidden ''Not authorized to update this reminder''))"
  by (simp add: markReminderRead_def findOne_def sample_defs)

end
